theory Spec2Isabelle
  imports Main "HOL-Library.Word"
begin

section \<open>Errors, results and exceptions\<close>

text \<open>
  The error numbers of \<^verbatim>\<open>Basics/voc-errors.h\<close> that the sources name, as an
  enumeration; every other error number is \<open>TRI_ERROR_OTHER n\<close>. The header is not
  among the sources, and nothing below depends on the numbers behind the names.
\<close>

datatype ErrorCode =
    TRI_ERROR_NO_ERROR
  | TRI_ERROR_INTERNAL
  | TRI_ERROR_NOT_IMPLEMENTED
  | TRI_ERROR_REPLICATION_REPLICATED_LOG_LEADER_RESIGNED
  | TRI_ERROR_OTHER nat

text \<open>\<^verbatim>\<open>arangodb::Result\<close>: an error number and a message.\<close>

record Result =
  errorNumber :: ErrorCode
  errorMessage :: string

text \<open>
  What a call can throw: \<^verbatim>\<open>basics::Exception\<close> (built by the
  \<^verbatim>\<open>THROW_ARANGO_EXCEPTION\<close> macros from a code and a message, or from a
  \<^verbatim>\<open>Result\<close>), \<^verbatim>\<open>ParticipantResignedException\<close>, and the
  \<^verbatim>\<open>velocypack::Exception\<close> of the slice accessors, by its kind.
\<close>

datatype vpack_error = InvalidValueType | NumberOutOfRange | IndexOutOfBounds

datatype exception =
    ArangoException Result
  | ParticipantResignedException Result
  | VPackException vpack_error

definition THROW_ARANGO_EXCEPTION_MESSAGE :: "ErrorCode \<Rightarrow> string \<Rightarrow> exception + 'a" where
  "THROW_ARANGO_EXCEPTION_MESSAGE code msg =
     Inl (ArangoException \<lparr>errorNumber = code, errorMessage = msg\<rparr>)"

definition THROW_ARANGO_EXCEPTION :: "Result \<Rightarrow> exception + 'a" where
  "THROW_ARANGO_EXCEPTION r = Inl (ArangoException r)"

section \<open>Choosing the variant: \<^verbatim>\<open>PrototypeStateMethods::createInstance\<close>\<close>

text \<open>The roles of \<^verbatim>\<open>ServerState::RoleEnum\<close>.\<close>

datatype RoleEnum =
  ROLE_UNDEFINED | ROLE_SINGLE | ROLE_DBSERVER | ROLE_COORDINATOR | ROLE_AGENT

text \<open>The two implementations of the interface, each holding the vocbase it was built on.\<close>

datatype 'v PrototypeStateMethods =
    PrototypeStateMethodsCoordinator 'v
  | PrototypeStateMethodsDBServer 'v

fun createInstance :: "RoleEnum \<Rightarrow> 'v \<Rightarrow> exception + 'v PrototypeStateMethods" where
  "createInstance ROLE_COORDINATOR vocbase = Inr (PrototypeStateMethodsCoordinator vocbase)"
| "createInstance ROLE_DBSERVER vocbase = Inr (PrototypeStateMethodsDBServer vocbase)"
| "createInstance _ vocbase =
     THROW_ARANGO_EXCEPTION_MESSAGE TRI_ERROR_NOT_IMPLEMENTED
       ''api only on available coordinators or dbservers''"

section \<open>Identifiers and strings\<close>

text \<open>\<^verbatim>\<open>LogId\<close> and \<^verbatim>\<open>LogIndex\<close> are structs around one unsigned 64-bit number.\<close>

datatype LogId = LogId (id_of: "64 word")

datatype LogIndex = LogIndex (value_of: "64 word")

type_synonym ServerID = string

text \<open>
  \<^verbatim>\<open>std::unordered_map<std::string, std::string>\<close>: the entries in the order in
  which the container iterates over them; \<open>emplace\<close> leaves an existing key alone.
\<close>

type_synonym unordered_map = "(string \<times> string) list"

definition emplace :: "unordered_map \<Rightarrow> string \<Rightarrow> string \<Rightarrow> unordered_map" where
  "emplace m k v = (if map_of m k = None then m @ [(k, v)] else m)"

text \<open>Decimal rendering of an unsigned number, as \<^verbatim>\<open>std::to_string\<close> writes it.\<close>

definition digit_char :: "nat \<Rightarrow> char" where
  "digit_char d = ''0123456789'' ! d"

function to_string :: "nat \<Rightarrow> string" where
  "to_string n = (if n < 10 then [digit_char n] else to_string (n div 10) @ [digit_char (n mod 10)])"
  by pat_completeness auto
termination
  by (relation "measure (\<lambda>n. n)") auto

declare to_string.simps [simp del]

text \<open>
  \<^verbatim>\<open>basics::StringUtils::joinT\<close> and \<^verbatim>\<open>concatT\<close> on arguments that are already
  rendered: the parts with the delimiter between them, and the parts one after the other.
\<close>

fun joinT :: "string \<Rightarrow> string list \<Rightarrow> string" where
  "joinT delim [] = []"
| "joinT delim [x] = x"
| "joinT delim (x # y # rest) = x @ delim @ joinT delim (y # rest)"

definition concatT :: "string list \<Rightarrow> string" where
  "concatT parts = concat parts"

section \<open>VelocyPack slices\<close>

text \<open>
  The values a slice can hold, as far as the sources look at them. \<open>VNone\<close> is the
  slice of type None: the default-constructed slice, and what a lookup of a missing
  attribute returns. The VelocyPack library is not among the sources; its accessors
  are given the behaviour of the library: each throws a \<^verbatim>\<open>velocypack::Exception\<close>
  on a slice of the wrong type, \<open>get\<close> on anything but an object, \<open>length\<close> on anything
  but an array or an object, \<open>copyString\<close> on anything but a string. An object is the
  list of its attributes in the order of iteration.
\<close>

datatype vpack =
    VNone
  | VNull
  | VBool bool
  | VInt int
  | VString string
  | VArray "vpack list"
  | VObject "(string \<times> vpack) list"

fun isObject :: "vpack \<Rightarrow> bool" where
  "isObject (VObject kvs) = True"
| "isObject _ = False"

fun slice_get :: "vpack \<Rightarrow> string \<Rightarrow> exception + vpack" where
  "slice_get (VObject kvs) attr =
     Inr (case map_of kvs attr of None \<Rightarrow> VNone | Some v \<Rightarrow> v)"
| "slice_get _ attr = Inl (VPackException InvalidValueType)"

fun slice_length :: "vpack \<Rightarrow> exception + nat" where
  "slice_length (VObject kvs) = Inr (length kvs)"
| "slice_length (VArray xs) = Inr (length xs)"
| "slice_length _ = Inl (VPackException InvalidValueType)"

fun valueAt :: "vpack \<Rightarrow> nat \<Rightarrow> exception + vpack" where
  "valueAt (VObject kvs) i =
     (if i < length kvs then Inr (snd (kvs ! i))
      else Inl (VPackException IndexOutOfBounds))"
| "valueAt _ i = Inl (VPackException InvalidValueType)"

fun copyString :: "vpack \<Rightarrow> exception + string" where
  "copyString (VString s) = Inr s"
| "copyString _ = Inl (VPackException InvalidValueType)"

text \<open>\<^verbatim>\<open>extract<LogIndex>\<close> reads the slice as an unsigned 64-bit number.\<close>

fun extract_LogIndex :: "vpack \<Rightarrow> exception + LogIndex" where
  "extract_LogIndex (VInt n) =
     (if 0 \<le> n \<and> n < 2 ^ 64 then Inr (LogIndex (word_of_int n))
      else Inl (VPackException NumberOutOfRange))"
| "extract_LogIndex _ = Inl (VPackException InvalidValueType)"

section \<open>Requests and responses\<close>

datatype RestVerb = Delete | Get | Post | Put | Head | Patch | Options

record RequestOptions =
  database :: string
  parameters :: "(string \<times> string) list"

text \<open>
  What \<^verbatim>\<open>network::sendRequest\<close> is given: destination, verb, path, payload and
  options. The payload is \<open>None\<close> where the source passes the empty buffer \<^verbatim>\<open>{}\<close>.
\<close>

record Request =
  destination :: string
  verb :: RestVerb
  path :: string
  payload :: "vpack option"
  options :: RequestOptions

text \<open>
  A \<^verbatim>\<open>network::Response\<close>, as the four observations the sources make of it:
  \<^verbatim>\<open>fail()\<close>, \<^verbatim>\<open>statusCode()\<close>, \<^verbatim>\<open>combinedResult()\<close> and \<^verbatim>\<open>slice()\<close>.
\<close>

record Response =
  fail :: bool
  statusCode :: nat
  combinedResult :: Result
  slice :: vpack

text \<open>
  Modelled from the spec: the status codes of \<^verbatim>\<open>fuerte\<close>, whose headers are not
  among the sources. The not-found status is 404, and a success status is one of the
  2xx codes.
\<close>

definition StatusNotFound :: nat where
  "StatusNotFound = 404"

definition statusIsSuccess :: "nat \<Rightarrow> bool" where
  "statusIsSuccess status = (200 \<le> status \<and> status < 300)"

text \<open>\<^verbatim>\<open>ResultT<T>\<close>: a failed \<^verbatim>\<open>Result\<close>, or a value.\<close>

datatype 'a ResultT = ResultT_error Result | ResultT_success 'a

section \<open>The forwarding variant: \<^verbatim>\<open>PrototypeStateMethodsCoordinator\<close>\<close>

text \<open>
  The members of the struct: the name of the vocbase, the cluster info (its
  \<^verbatim>\<open>getReplicatedLogLeader\<close>) and the connection pool, which answers a request with
  a response.
\<close>

record Coordinator =
  vocbase_name :: string
  getReplicatedLogLeader :: "string \<Rightarrow> LogId \<Rightarrow> ServerID ResultT"
  pool :: "Request \<Rightarrow> Response"

text \<open>What a call does to the outside: it asks the cluster info, and it sends requests.\<close>

datatype event =
    AskedLogLeader string LogId
  | SentRequest Request

definition getLogLeader :: "Coordinator \<Rightarrow> LogId \<Rightarrow> exception + ServerID" where
  "getLogLeader c logId =
     (case getReplicatedLogLeader c (vocbase_name c) logId of
        ResultT_error r \<Rightarrow>
          if errorNumber r = TRI_ERROR_REPLICATION_REPLICATED_LOG_LEADER_RESIGNED
          then Inl (ParticipantResignedException r)
          else THROW_ARANGO_EXCEPTION r
      | ResultT_success leader \<Rightarrow> Inr leader)"

text \<open>
  The shape all six methods share:
  \<^verbatim>\<open>network::sendRequest(_pool, "server:" + getLogLeader(id), verb, path, body, opts).thenValue(k)\<close>.
  The leader is looked up while the arguments are evaluated, so a throwing lookup
  sends nothing; the continuation \<open>k\<close> runs on the response. The future is modelled
  by the outcome it completes with.
\<close>

definition sendRequest_thenValue ::
  "Coordinator \<Rightarrow> LogId \<Rightarrow> RestVerb \<Rightarrow> string \<Rightarrow> vpack option \<Rightarrow> RequestOptions \<Rightarrow>
   (Response \<Rightarrow> exception + 'a) \<Rightarrow> event list \<times> (exception + 'a)" where
  "sendRequest_thenValue c logId v p body opts k =
     (case getLogLeader c logId of
        Inl e \<Rightarrow> ([AskedLogLeader (vocbase_name c) logId], Inl e)
      | Inr leader \<Rightarrow>
          (let req = \<lparr>destination = ''server:'' @ leader, verb = v, path = p,
                      payload = body, options = opts\<rparr>
           in ([AskedLogLeader (vocbase_name c) logId, SentRequest req], k (pool c req))))"

text \<open>
  The continuations. \<open>toJson\<close> stands for \<^verbatim>\<open>Slice::toJson\<close>, whose output only
  appears in error messages.
\<close>

definition processLogIndexResponse :: "(vpack \<Rightarrow> string) \<Rightarrow> Response \<Rightarrow> exception + LogIndex" where
  "processLogIndexResponse toJson resp =
     (if fail resp \<or> \<not> statusIsSuccess (statusCode resp)
      then THROW_ARANGO_EXCEPTION (combinedResult resp)
      else
        (case slice_get (slice resp) ''result'' of
           Inl e \<Rightarrow> Inl e
         | Inr result \<Rightarrow>
             if isObject result \<and> slice_length result = Inr 1
             then (case slice_get result ''index'' of
                     Inl e \<Rightarrow> Inl e
                   | Inr i \<Rightarrow> extract_LogIndex i)
             else THROW_ARANGO_EXCEPTION_MESSAGE TRI_ERROR_INTERNAL
                    (concatT [''expected result containing index in leader response: '',
                              toJson (slice resp)])))"

definition logIndexResult :: "(vpack \<Rightarrow> string) \<Rightarrow> Response \<Rightarrow> exception + LogIndex ResultT" where
  "logIndexResult toJson resp =
     (case processLogIndexResponse toJson resp of
        Inl e \<Rightarrow> Inl e
      | Inr i \<Rightarrow> Inr (ResultT_success i))"

definition get_thenValue :: "(vpack \<Rightarrow> string) \<Rightarrow> Response \<Rightarrow> exception + string option" where
  "get_thenValue toJson resp =
     (if statusCode resp = StatusNotFound then Inr None
      else if fail resp \<or> \<not> statusIsSuccess (statusCode resp)
      then THROW_ARANGO_EXCEPTION (combinedResult resp)
      else
        (case slice_get (slice resp) ''result'' of
           Inl e \<Rightarrow> Inl e
         | Inr result \<Rightarrow>
             if isObject result \<and> slice_length result = Inr 1
             then (case valueAt result 0 of
                     Inl e \<Rightarrow> Inl e
                   | Inr v \<Rightarrow>
                       (case copyString v of Inl e \<Rightarrow> Inl e | Inr s \<Rightarrow> Inr (Some s)))
             else THROW_ARANGO_EXCEPTION_MESSAGE TRI_ERROR_INTERNAL
                    (concatT [''expected result containing key-value pair in leader response: '',
                              toJson (slice resp)])))"

text \<open>The loop over \<^verbatim>\<open>VPackObjectIterator{result}\<close> that fills the map.\<close>

fun collect_map :: "(string \<times> vpack) list \<Rightarrow> unordered_map \<Rightarrow> exception + unordered_map" where
  "collect_map [] m = Inr m"
| "collect_map ((k, v) # rest) m =
     (case copyString v of
        Inl e \<Rightarrow> Inl e
      | Inr s \<Rightarrow> collect_map rest (emplace m k s))"

definition map_thenValue :: "(vpack \<Rightarrow> string) \<Rightarrow> Response \<Rightarrow> exception + unordered_map" where
  "map_thenValue toJson resp =
     (if fail resp \<or> \<not> statusIsSuccess (statusCode resp)
      then THROW_ARANGO_EXCEPTION (combinedResult resp)
      else
        (case slice_get (slice resp) ''result'' of
           Inl e \<Rightarrow> Inl e
         | Inr result \<Rightarrow>
             (case result of
                VObject kvs \<Rightarrow> collect_map kvs []
              | _ \<Rightarrow> THROW_ARANGO_EXCEPTION_MESSAGE TRI_ERROR_INTERNAL
                       (concatT [''expected result containing map in leader response: '',
                                 toJson (slice resp)]))))"

definition snapshot_thenValue ::
  "(vpack \<Rightarrow> string) \<Rightarrow> Response \<Rightarrow> exception + unordered_map ResultT" where
  "snapshot_thenValue toJson resp =
     (case map_thenValue toJson resp of
        Inl e \<Rightarrow> Inl e
      | Inr m \<Rightarrow> Inr (ResultT_success m))"

text \<open>The bodies: an object of the entries, an array of the keys.\<close>

definition entries_body :: "unordered_map \<Rightarrow> vpack" where
  "entries_body entries = VObject (map (\<lambda>(key, val). (key, VString val)) entries)"

definition keys_body :: "string list \<Rightarrow> vpack" where
  "keys_body keys = VArray (map VString keys)"

definition logId_string :: "LogId \<Rightarrow> string" where
  "logId_string logId = to_string (unat (id_of logId))"

definition Coordinator_insert ::
  "(vpack \<Rightarrow> string) \<Rightarrow> Coordinator \<Rightarrow> LogId \<Rightarrow> unordered_map \<Rightarrow>
   event list \<times> (exception + LogIndex ResultT)" where
  "Coordinator_insert toJson c logId entries =
     (let p = joinT ''/'' [''_api/prototype-state'', logId_string logId, ''insert''];
          opts = \<lparr>database = vocbase_name c, parameters = []\<rparr>
      in sendRequest_thenValue c logId Post p (Some (entries_body entries)) opts
           (logIndexResult toJson))"

definition Coordinator_get ::
  "(vpack \<Rightarrow> string) \<Rightarrow> Coordinator \<Rightarrow> LogId \<Rightarrow> string \<Rightarrow>
   event list \<times> (exception + string option)" where
  "Coordinator_get toJson c logId key =
     (let p = joinT ''/'' [''_api/prototype-state'', logId_string logId, ''entry'', key];
          opts = \<lparr>database = vocbase_name c, parameters = []\<rparr>
      in sendRequest_thenValue c logId Get p None opts (get_thenValue toJson))"

definition Coordinator_get_keys ::
  "(vpack \<Rightarrow> string) \<Rightarrow> Coordinator \<Rightarrow> LogId \<Rightarrow> string list \<Rightarrow>
   event list \<times> (exception + unordered_map)" where
  "Coordinator_get_keys toJson c logId keys =
     (let p = joinT ''/'' [''_api/prototype-state'', logId_string logId, ''multi-get''];
          opts = \<lparr>database = vocbase_name c, parameters = []\<rparr>
      in sendRequest_thenValue c logId Post p (Some (keys_body keys)) opts
           (map_thenValue toJson))"

definition Coordinator_getSnapshot ::
  "(vpack \<Rightarrow> string) \<Rightarrow> Coordinator \<Rightarrow> LogId \<Rightarrow> LogIndex \<Rightarrow>
   event list \<times> (exception + unordered_map ResultT)" where
  "Coordinator_getSnapshot toJson c logId waitForIndex =
     (let p = joinT ''/'' [''_api/prototype-state'', logId_string logId, ''snapshot''];
          opts = \<lparr>database = vocbase_name c,
                  parameters = [(''waitForIndex'', to_string (unat (value_of waitForIndex)))]\<rparr>
      in sendRequest_thenValue c logId Get p None opts (snapshot_thenValue toJson))"

definition Coordinator_remove ::
  "(vpack \<Rightarrow> string) \<Rightarrow> Coordinator \<Rightarrow> LogId \<Rightarrow> string \<Rightarrow>
   event list \<times> (exception + LogIndex ResultT)" where
  "Coordinator_remove toJson c logId key =
     (let p = joinT ''/'' [''_api/prototype-state'', logId_string logId, ''entry'', key];
          opts = \<lparr>database = vocbase_name c, parameters = []\<rparr>
      in sendRequest_thenValue c logId Delete p None opts (logIndexResult toJson))"

definition Coordinator_remove_keys ::
  "(vpack \<Rightarrow> string) \<Rightarrow> Coordinator \<Rightarrow> LogId \<Rightarrow> string list \<Rightarrow>
   event list \<times> (exception + LogIndex ResultT)" where
  "Coordinator_remove_keys toJson c logId keys =
     (let p = joinT ''/'' [''_api/prototype-state'', logId_string logId, ''multi-remove''];
          opts = \<lparr>database = vocbase_name c, parameters = []\<rparr>
      in sendRequest_thenValue c logId Delete p (Some (keys_body keys)) opts
           (logIndexResult toJson))"

section \<open>The co-located variant: \<^verbatim>\<open>PrototypeStateMethodsDBServer\<close>\<close>

text \<open>
  The methods of \<^verbatim>\<open>PrototypeLeaderState\<close> that the variant calls, each taken as
  the outcome of the future it returns.
\<close>

record PrototypeLeaderState =
  leader_set :: "unordered_map \<Rightarrow> exception + LogIndex ResultT"
  leader_get :: "string \<Rightarrow> exception + string option"
  leader_get_keys :: "string list \<Rightarrow> exception + unordered_map"
  leader_getSnapshot :: "LogIndex \<Rightarrow> exception + unordered_map ResultT"
  leader_remove :: "string \<Rightarrow> exception + LogIndex ResultT"
  leader_remove_keys :: "string list \<Rightarrow> exception + LogIndex ResultT"

text \<open>
  A \<^verbatim>\<open>ReplicatedState<PrototypeState>\<close>, as what its \<^verbatim>\<open>getLeader()\<close> returns: the
  leader on this node, or null.
\<close>

datatype ReplicatedState_PrototypeState =
  ReplicatedState_PrototypeState (getLeader: "PrototypeLeaderState option")

text \<open>
  What a pointer to \<^verbatim>\<open>ReplicatedStateBase\<close> can point to: a replicated state of the
  prototype type or one of another type. The \<^verbatim>\<open>dynamic_pointer_cast\<close> gives null on
  null and on a state of another type.
\<close>

datatype ReplicatedStateBase =
    OfPrototypeState ReplicatedState_PrototypeState
  | OfOtherState

fun dynamic_pointer_cast :: "ReplicatedStateBase option \<Rightarrow> ReplicatedState_PrototypeState option" where
  "dynamic_pointer_cast (Some (OfPrototypeState s)) = Some s"
| "dynamic_pointer_cast _ = None"

text \<open>
  The vocbase, as its \<^verbatim>\<open>getReplicatedStateById\<close>, which is not among the sources:
  the lookup may throw, give null, or give a state.
\<close>

record DBServer =
  getReplicatedStateById :: "LogId \<Rightarrow> exception + ReplicatedStateBase option"

definition getPrototypeStateLeaderById :: "DBServer \<Rightarrow> LogId \<Rightarrow> exception + PrototypeLeaderState" where
  "getPrototypeStateLeaderById d logId =
     (case getReplicatedStateById d logId of
        Inl e \<Rightarrow> Inl e
      | Inr base \<Rightarrow>
          (case dynamic_pointer_cast base of
             None \<Rightarrow>
               THROW_ARANGO_EXCEPTION_MESSAGE TRI_ERROR_INTERNAL
                 (concatT [''Failed to get ProtoypeState with id '', logId_string logId])
           | Some stateMachine \<Rightarrow>
               (case getLeader stateMachine of
                  None \<Rightarrow>
                    THROW_ARANGO_EXCEPTION_MESSAGE TRI_ERROR_INTERNAL
                      (concatT [''Failed to get leader of ProtoypeState with id '',
                                logId_string logId])
                | Some leader \<Rightarrow> Inr leader)))"

definition DBServer_insert :: "DBServer \<Rightarrow> LogId \<Rightarrow> unordered_map \<Rightarrow> exception + LogIndex ResultT" where
  "DBServer_insert d logId entries =
     (case getPrototypeStateLeaderById d logId of
        Inl e \<Rightarrow> Inl e
      | Inr leader \<Rightarrow> leader_set leader entries)"

definition DBServer_get :: "DBServer \<Rightarrow> LogId \<Rightarrow> string \<Rightarrow> exception + string option" where
  "DBServer_get d logId key =
     (case getPrototypeStateLeaderById d logId of
        Inl e \<Rightarrow> Inl e
      | Inr leader \<Rightarrow> leader_get leader key)"

definition DBServer_get_keys :: "DBServer \<Rightarrow> LogId \<Rightarrow> string list \<Rightarrow> exception + unordered_map" where
  "DBServer_get_keys d logId keys =
     (case getPrototypeStateLeaderById d logId of
        Inl e \<Rightarrow> Inl e
      | Inr leader \<Rightarrow> leader_get_keys leader keys)"

definition DBServer_getSnapshot ::
  "DBServer \<Rightarrow> LogId \<Rightarrow> LogIndex \<Rightarrow> exception + unordered_map ResultT" where
  "DBServer_getSnapshot d logId waitForIndex =
     (case getPrototypeStateLeaderById d logId of
        Inl e \<Rightarrow> Inl e
      | Inr leader \<Rightarrow> leader_getSnapshot leader waitForIndex)"

definition DBServer_remove :: "DBServer \<Rightarrow> LogId \<Rightarrow> string \<Rightarrow> exception + LogIndex ResultT" where
  "DBServer_remove d logId key =
     (case getPrototypeStateLeaderById d logId of
        Inl e \<Rightarrow> Inl e
      | Inr leader \<Rightarrow> leader_remove leader key)"

definition DBServer_remove_keys :: "DBServer \<Rightarrow> LogId \<Rightarrow> string list \<Rightarrow> exception + LogIndex ResultT" where
  "DBServer_remove_keys d logId keys =
     (case getPrototypeStateLeaderById d logId of
        Inl e \<Rightarrow> Inl e
      | Inr leader \<Rightarrow> leader_remove_keys leader keys)"

section \<open>Loading an object: \<^verbatim>\<open>VPackLoadInspector::applyFields\<close>\<close>

record ParseOptions =
  ignoreUnknownFields :: bool

text \<open>
  The \<^verbatim>\<open>Result\<close> of the inspection framework: success, or an error message with the
  path of attribute names that enclosing fields have put in front of it.
\<close>

datatype inspection_Result = Success | Error string "string list"

fun ok :: "inspection_Result \<Rightarrow> bool" where
  "ok Success = True"
| "ok (Error msg p) = False"

text \<open>The constructor \<^verbatim>\<open>Result(std::move(res), name, AttributeTag{})\<close>.\<close>

fun with_attribute :: "inspection_Result \<Rightarrow> string \<Rightarrow> inspection_Result" where
  "with_attribute (Error msg p) name = Error msg (name # p)"
| "with_attribute Success name = Success"

text \<open>
  A declared field: its name, the value it refers to, and what
  \<^verbatim>\<open>load() | checkInvariant(field)\<close> does with a nested inspector on a slice, given
  the options: a result and the new content of the value.
\<close>

record 'v Field =
  fieldName :: string
  fieldValue :: 'v
  load :: "ParseOptions \<Rightarrow> vpack \<Rightarrow> 'v \<Rightarrow> inspection_Result \<times> 'v"

definition parseField ::
  "ParseOptions \<Rightarrow> vpack \<Rightarrow> 'v Field \<Rightarrow> inspection_Result \<times> 'v Field" where
  "parseField opts s field =
     (case load field opts s (fieldValue field) of
        (res, v) \<Rightarrow>
          (if \<not> ok res then with_attribute res (fieldName field) else res,
           field\<lparr>fieldValue := v\<rparr>))"

text \<open>
  \<^verbatim>\<open>parseFields\<close> walks the slices and the fields together and stops at the first
  field that fails. The source has no overload for an empty pack of fields.
\<close>

fun parseFields ::
  "ParseOptions \<Rightarrow> vpack list \<Rightarrow> 'v Field list \<Rightarrow> inspection_Result \<times> 'v Field list" where
  "parseFields opts (s # ss) [arg] =
     (case parseField opts s arg of (res, arg') \<Rightarrow> (res, [arg']))"
| "parseFields opts (s # ss) (arg # arg2 # args) =
     (case parseField opts s arg of
        (res, arg') \<Rightarrow>
          if ok res
          then (case parseFields opts ss (arg2 # args) of
                  (res', args') \<Rightarrow> (res', arg' # args'))
          else (res, arg' # arg2 # args))"

text \<open>\<^verbatim>\<open>std::find\<close> over the array of names, as the position of the first match.\<close>

fun find_name :: "string list \<Rightarrow> string \<Rightarrow> nat option" where
  "find_name [] k = None"
| "find_name (n # ns) k =
     (if n = k then Some 0 else map_option Suc (find_name ns k))"

text \<open>
  The loop over the attributes of the object: a known name stores the value in its
  slot, an unknown one is passed over or ends the loop with an error.
\<close>

fun collect_slices ::
  "ParseOptions \<Rightarrow> string list \<Rightarrow> (string \<times> vpack) list \<Rightarrow> vpack list \<Rightarrow>
   inspection_Result + vpack list" where
  "collect_slices opts names [] slices = Inr slices"
| "collect_slices opts names ((k, v) # rest) slices =
     (case find_name names k of
        Some i \<Rightarrow> collect_slices opts names rest (slices[i := v])
      | None \<Rightarrow>
          if ignoreUnknownFields opts then collect_slices opts names rest slices
          else Inl (Error (''Found unexpected attribute '' @ [CHR 0x27] @ k @ [CHR 0x27]) []))"

text \<open>
  \<open>applyFields\<close> on the inspector's slice. Iterating over a slice that is no object
  throws; otherwise the outcome is the result and the fields with their values as
  the parse left them.
\<close>

definition applyFields ::
  "ParseOptions \<Rightarrow> vpack \<Rightarrow> 'v Field list \<Rightarrow> exception + (inspection_Result \<times> 'v Field list)" where
  "applyFields opts s args =
     (let names = map fieldName args;
          slices = replicate (length args) VNone
      in case s of
           VObject kvs \<Rightarrow>
             (case collect_slices opts names kvs slices of
                Inl err \<Rightarrow> Inr (err, args)
              | Inr slices' \<Rightarrow> Inr (parseFields opts slices' args))
         | _ \<Rightarrow> Inl (VPackException InvalidValueType))"

section \<open>Vocabulary of the statements\<close>

text \<open>
  The two exceptions of \<^verbatim>\<open>getPrototypeStateLeaderById\<close>, with the messages the
  source builds.
\<close>

abbreviation no_state_exception :: "LogId \<Rightarrow> exception" where
  "no_state_exception logId \<equiv>
     ArangoException \<lparr>errorNumber = TRI_ERROR_INTERNAL,
       errorMessage = ''Failed to get ProtoypeState with id '' @ logId_string logId\<rparr>"

abbreviation no_leader_exception :: "LogId \<Rightarrow> exception" where
  "no_leader_exception logId \<equiv>
     ArangoException \<lparr>errorNumber = TRI_ERROR_INTERNAL,
       errorMessage = ''Failed to get leader of ProtoypeState with id '' @ logId_string logId\<rparr>"

text \<open>
  The requests of the six methods of the forwarding variant, with the paths written out.
\<close>

abbreviation request_to ::
  "Coordinator \<Rightarrow> ServerID \<Rightarrow> RestVerb \<Rightarrow> string \<Rightarrow> vpack option \<Rightarrow> (string \<times> string) list \<Rightarrow> Request" where
  "request_to c leader v p body params \<equiv>
     \<lparr>destination = ''server:'' @ leader, verb = v, path = p, payload = body,
      options = \<lparr>database = vocbase_name c, parameters = params\<rparr>\<rparr>"

abbreviation insert_request :: "Coordinator \<Rightarrow> ServerID \<Rightarrow> LogId \<Rightarrow> unordered_map \<Rightarrow> Request" where
  "insert_request c leader logId entries \<equiv>
     request_to c leader Post (''_api/prototype-state/'' @ logId_string logId @ ''/insert'')
       (Some (VObject (map (\<lambda>(key, val). (key, VString val)) entries))) []"

abbreviation get_request :: "Coordinator \<Rightarrow> ServerID \<Rightarrow> LogId \<Rightarrow> string \<Rightarrow> Request" where
  "get_request c leader logId key \<equiv>
     request_to c leader Get (''_api/prototype-state/'' @ logId_string logId @ ''/entry/'' @ key)
       None []"

abbreviation get_keys_request :: "Coordinator \<Rightarrow> ServerID \<Rightarrow> LogId \<Rightarrow> string list \<Rightarrow> Request" where
  "get_keys_request c leader logId keys \<equiv>
     request_to c leader Post (''_api/prototype-state/'' @ logId_string logId @ ''/multi-get'')
       (Some (VArray (map VString keys))) []"

abbreviation getSnapshot_request :: "Coordinator \<Rightarrow> ServerID \<Rightarrow> LogId \<Rightarrow> LogIndex \<Rightarrow> Request" where
  "getSnapshot_request c leader logId waitForIndex \<equiv>
     request_to c leader Get (''_api/prototype-state/'' @ logId_string logId @ ''/snapshot'')
       None [(''waitForIndex'', to_string (unat (value_of waitForIndex)))]"

abbreviation remove_request :: "Coordinator \<Rightarrow> ServerID \<Rightarrow> LogId \<Rightarrow> string \<Rightarrow> Request" where
  "remove_request c leader logId key \<equiv>
     request_to c leader Delete (''_api/prototype-state/'' @ logId_string logId @ ''/entry/'' @ key)
       None []"

abbreviation remove_keys_request :: "Coordinator \<Rightarrow> ServerID \<Rightarrow> LogId \<Rightarrow> string list \<Rightarrow> Request" where
  "remove_keys_request c leader logId keys \<equiv>
     request_to c leader Delete (''_api/prototype-state/'' @ logId_string logId @ ''/multi-remove'')
       (Some (VArray (map VString keys))) []"

text \<open>
  The entries of the \<open>result\<close> attribute of a response body, where the body is an
  object and the attribute holds an object: what the continuations look up with
  \<^verbatim>\<open>slice.get("result")\<close> and \<^verbatim>\<open>result.isObject()\<close>.
\<close>

definition envelope_result :: "vpack \<Rightarrow> (string \<times> vpack) list option" where
  "envelope_result body =
     (case body of
        VObject kvs \<Rightarrow>
          (case map_of kvs ''result'' of
             Some (VObject entries) \<Rightarrow> Some entries
           | _ \<Rightarrow> None)
      | _ \<Rightarrow> None)"

text \<open>
  The failure on a body of the wrong shape: the exception with the code
  \<open>TRI_ERROR_INTERNAL\<close> and the message that ends in the body as JSON, or, where the
  body is no object at all, the type error of \<^verbatim>\<open>slice.get\<close>.
\<close>

abbreviation malformed_exception :: "string \<Rightarrow> string \<Rightarrow> exception" where
  "malformed_exception expected json \<equiv>
     ArangoException \<lparr>errorNumber = TRI_ERROR_INTERNAL, errorMessage = expected @ json\<rparr>"

abbreviation malformed_failure :: "(vpack \<Rightarrow> string) \<Rightarrow> string \<Rightarrow> vpack \<Rightarrow> exception" where
  "malformed_failure toJson expected body \<equiv>
     (if isObject body then malformed_exception expected (toJson body)
      else VPackException InvalidValueType)"

text \<open>
  The error of \<open>applyFields\<close> on an attribute that no field declares.
\<close>

abbreviation unexpected_attribute :: "string \<Rightarrow> inspection_Result" where
  "unexpected_attribute k \<equiv>
     Error (''Found unexpected attribute '' @ [CHR 0x27] @ k @ [CHR 0x27]) []"

text \<open>
  The outcome of a call without the way it is delivered: a value, or the
  \<^verbatim>\<open>Result\<close> of a failure, which the co-located variant may return in a failed
  \<^verbatim>\<open>ResultT\<close> or throw, and which the forwarding variant always throws.
  \<open>error_of\<close> gives the \<^verbatim>\<open>Result\<close> that is reported for an exception.
\<close>

datatype 'a outcome = Value 'a | Failure Result

definition outcome_of :: "(exception \<Rightarrow> Result) \<Rightarrow> exception + 'a \<Rightarrow> 'a outcome" where
  "outcome_of error_of x = (case x of Inl e \<Rightarrow> Failure (error_of e) | Inr v \<Rightarrow> Value v)"

definition outcome_of_ResultT :: "(exception \<Rightarrow> Result) \<Rightarrow> exception + 'a ResultT \<Rightarrow> 'a outcome" where
  "outcome_of_ResultT error_of x =
     (case x of
        Inl e \<Rightarrow> Failure (error_of e)
      | Inr (ResultT_error r) \<Rightarrow> Failure r
      | Inr (ResultT_success v) \<Rightarrow> Value v)"

text \<open>
  Modelled from the spec: the responses of the co-located endpoint, the REST handler
  in front of \<^verbatim>\<open>PrototypeStateMethodsDBServer\<close>, which is not among the sources. The
  wire table gives the body of a success, \<open>{result: {index: LogIndex}}\<close> for insert and
  remove; a failure returns a non-success status carrying a structured error.
\<close>

definition index_envelope :: "Response \<Rightarrow> LogIndex outcome \<Rightarrow> bool" where
  "index_envelope resp x =
     (\<not> fail resp \<and>
      (case x of
         Value i \<Rightarrow>
           statusIsSuccess (statusCode resp) \<and>
           envelope_result (slice resp) = Some [(''index'', VInt (uint (value_of i)))]
       | Failure r \<Rightarrow> \<not> statusIsSuccess (statusCode resp) \<and> combinedResult resp = r))"

text \<open>
  Modelled from the spec: the response of the co-located endpoint (not among the
  sources) to get one: \<open>{result: {<key>: <value>}}\<close>, a not-found status if the key is
  absent, and for any other failure a non-success status carrying a structured error.
\<close>

definition entry_envelope :: "string \<Rightarrow> Response \<Rightarrow> string option outcome \<Rightarrow> bool" where
  "entry_envelope key resp x =
     (\<not> fail resp \<and>
      (case x of
         Value (Some v) \<Rightarrow>
           statusIsSuccess (statusCode resp) \<and>
           envelope_result (slice resp) = Some [(key, VString v)]
       | Value None \<Rightarrow> statusCode resp = StatusNotFound
       | Failure r \<Rightarrow> \<not> statusIsSuccess (statusCode resp) \<and> combinedResult resp = r))"

text \<open>
  Modelled from the spec: the response of the co-located endpoint (not among the
  sources) to get many and to snapshot: \<open>{result: {key\<rightarrow>value mapping}}\<close>, or a
  non-success status carrying a structured error.
\<close>

definition map_envelope :: "Response \<Rightarrow> unordered_map outcome \<Rightarrow> bool" where
  "map_envelope resp x =
     (\<not> fail resp \<and>
      (case x of
         Value m \<Rightarrow>
           statusIsSuccess (statusCode resp) \<and>
           envelope_result (slice resp) = Some (map (\<lambda>(key, val). (key, VString val)) m)
       | Failure r \<Rightarrow> \<not> statusIsSuccess (statusCode resp) \<and> combinedResult resp = r))"

section \<open>Concrete values for the examples\<close>

text \<open>
  A rendering of slices for the examples, a coordinator that is given the answer of
  the cluster info and the response of the pool, and some responses.
\<close>

definition toJson_example :: "vpack \<Rightarrow> string" where
  "toJson_example s = ''{...}''"

definition example_coordinator :: "ServerID ResultT \<Rightarrow> Response \<Rightarrow> Coordinator" where
  "example_coordinator leader resp =
     \<lparr>vocbase_name = ''_system'',
      getReplicatedLogLeader = (\<lambda>db logId. leader),
      pool = (\<lambda>req. resp)\<rparr>"

definition resigned_result :: Result where
  "resigned_result =
     \<lparr>errorNumber = TRI_ERROR_REPLICATION_REPLICATED_LOG_LEADER_RESIGNED,
      errorMessage = ''leader resigned''\<rparr>"

definition no_response :: Response where
  "no_response =
     \<lparr>fail = True, statusCode = 0,
      combinedResult = \<lparr>errorNumber = TRI_ERROR_OTHER 1495, errorMessage = ''connection lost''\<rparr>,
      slice = VNone\<rparr>"

definition ok_result :: Result where
  "ok_result = \<lparr>errorNumber = TRI_ERROR_NO_ERROR, errorMessage = []\<rparr>"

definition success_response :: "vpack \<Rightarrow> Response" where
  "success_response result =
     \<lparr>fail = False, statusCode = 200, combinedResult = ok_result,
      slice = VObject [(''error'', VBool False), (''code'', VInt 200), (''result'', result)]\<rparr>"

definition not_found_response :: Response where
  "not_found_response =
     \<lparr>fail = False, statusCode = 404,
      combinedResult = \<lparr>errorNumber = TRI_ERROR_OTHER 404, errorMessage = ''not found''\<rparr>,
      slice = VNone\<rparr>"

definition error_response :: "nat \<Rightarrow> Result \<Rightarrow> Response" where
  "error_response status r =
     \<lparr>fail = False, statusCode = status, combinedResult = r,
      slice = VObject [(''error'', VBool True), (''code'', VInt (int status)),
                       (''errorMessage'', VString (errorMessage r))]\<rparr>"

text \<open>
  A DBServer that has a prototype state without a leader for log 12, a state of
  another type for log 13 and nothing else; one whose lookup throws; and one that
  leads every log, with a leader that answers with fixed values.
\<close>

definition example_dbserver :: DBServer where
  "example_dbserver =
     \<lparr>getReplicatedStateById = (\<lambda>logId.
        if logId = LogId 12 then Inr (Some (OfPrototypeState (ReplicatedState_PrototypeState None)))
        else if logId = LogId 13 then Inr (Some OfOtherState)
        else Inr None)\<rparr>"

definition state_not_found_result :: Result where
  "state_not_found_result =
     \<lparr>errorNumber = TRI_ERROR_OTHER 1203, errorMessage = ''replicated state not found''\<rparr>"

definition dbserver_lookup_throws :: DBServer where
  "dbserver_lookup_throws =
     \<lparr>getReplicatedStateById = (\<lambda>logId. Inl (ArangoException state_not_found_result))\<rparr>"

definition example_leader :: PrototypeLeaderState where
  "example_leader =
     \<lparr>leader_set = (\<lambda>entries. Inr (ResultT_success (LogIndex 5))),
      leader_get = (\<lambda>key. Inr (if key = ''a'' then Some ''1'' else None)),
      leader_get_keys = (\<lambda>keys. Inr [(''a'', ''1'')]),
      leader_getSnapshot = (\<lambda>waitForIndex. Inr (ResultT_success [(''a'', ''1''), (''b'', ''2'')])),
      leader_remove = (\<lambda>key. Inr (ResultT_success (LogIndex 6))),
      leader_remove_keys = (\<lambda>keys. Inr (ResultT_error resigned_result))\<rparr>"

definition leading_dbserver :: DBServer where
  "leading_dbserver =
     \<lparr>getReplicatedStateById =
        (\<lambda>logId. Inr (Some (OfPrototypeState (ReplicatedState_PrototypeState (Some example_leader)))))\<rparr>"

text \<open>
  The \<^verbatim>\<open>Result\<close> an exception carries, for the examples.
\<close>

fun carried_result :: "exception \<Rightarrow> Result" where
  "carried_result (ArangoException r) = r"
| "carried_result (ParticipantResignedException r) = r"
| "carried_result (VPackException k) =
     \<lparr>errorNumber = TRI_ERROR_INTERNAL, errorMessage = ''velocypack exception''\<rparr>"

text \<open>
  A field that stores the slice it is given and fails on a missing one, and the two
  settings of the options.
\<close>

definition example_field :: "string \<Rightarrow> vpack Field" where
  "example_field name =
     \<lparr>fieldName = name, fieldValue = VNone,
      load = (\<lambda>opts s old.
        if s = VNone then (Error ''Missing required attribute'' [], old) else (Success, s))\<rparr>"

definition strict_options :: ParseOptions where
  "strict_options = \<lparr>ignoreUnknownFields = False\<rparr>"

definition lenient_options :: ParseOptions where
  "lenient_options = \<lparr>ignoreUnknownFields = True\<rparr>"

section \<open>The co-located variant without a leader\<close>

lemma getPrototypeStateLeaderById_no_state:
  "getReplicatedStateById d logId = Inr None \<or>
   getReplicatedStateById d logId = Inr (Some OfOtherState) \<Longrightarrow>
   getPrototypeStateLeaderById d logId = Inl (no_state_exception logId)"
  by (auto simp: getPrototypeStateLeaderById_def THROW_ARANGO_EXCEPTION_MESSAGE_def concatT_def)

lemma getPrototypeStateLeaderById_no_leader:
  "getReplicatedStateById d logId = Inr (Some (OfPrototypeState (ReplicatedState_PrototypeState None))) \<Longrightarrow>
   getPrototypeStateLeaderById d logId = Inl (no_leader_exception logId)"
  by (simp add: getPrototypeStateLeaderById_def THROW_ARANGO_EXCEPTION_MESSAGE_def concatT_def)

lemma DBServer_leader_failure:
  "getPrototypeStateLeaderById d logId = Inl e \<Longrightarrow>
   DBServer_insert d logId entries = Inl e
   \<and> DBServer_get d logId key = Inl e
   \<and> DBServer_get_keys d logId keys = Inl e
   \<and> DBServer_getSnapshot d logId waitForIndex = Inl e
   \<and> DBServer_remove d logId key = Inl e
   \<and> DBServer_remove_keys d logId keys = Inl e"
  by (simp add: DBServer_insert_def DBServer_get_def DBServer_get_keys_def
      DBServer_getSnapshot_def DBServer_remove_def DBServer_remove_keys_def)

text \<open>
  C1, as amended. For each of the six methods of the co-located variant: if the
  vocbase has no replicated state of the prototype type for the log id (the lookup
  gives null, or a state of another type), the call throws an exception with the code
  \<open>TRI_ERROR_INTERNAL\<close> and the message \<open>Failed to get ProtoypeState with id <id>\<close>; if
  the state exists but has no leader on this node, the call throws an exception with
  the code \<open>TRI_ERROR_INTERNAL\<close> and the message
  \<open>Failed to get leader of ProtoypeState with id <id>\<close>. The two cases differ in the
  message only, and the code is the generic internal error.
\<close>

theorem DBServer_without_leader_fails_internal:
  "(getReplicatedStateById d logId = Inr None \<or>
    getReplicatedStateById d logId = Inr (Some OfOtherState) \<longrightarrow>
      DBServer_insert d logId entries = Inl (no_state_exception logId)
      \<and> DBServer_get d logId key = Inl (no_state_exception logId)
      \<and> DBServer_get_keys d logId keys = Inl (no_state_exception logId)
      \<and> DBServer_getSnapshot d logId waitForIndex = Inl (no_state_exception logId)
      \<and> DBServer_remove d logId key = Inl (no_state_exception logId)
      \<and> DBServer_remove_keys d logId keys = Inl (no_state_exception logId))
   \<and> (getReplicatedStateById d logId = Inr (Some (OfPrototypeState (ReplicatedState_PrototypeState None))) \<longrightarrow>
      DBServer_insert d logId entries = Inl (no_leader_exception logId)
      \<and> DBServer_get d logId key = Inl (no_leader_exception logId)
      \<and> DBServer_get_keys d logId keys = Inl (no_leader_exception logId)
      \<and> DBServer_getSnapshot d logId waitForIndex = Inl (no_leader_exception logId)
      \<and> DBServer_remove d logId key = Inl (no_leader_exception logId)
      \<and> DBServer_remove_keys d logId keys = Inl (no_leader_exception logId))"
proof (intro conjI impI)
  assume a: "getReplicatedStateById d logId = Inr None \<or>
    getReplicatedStateById d logId = Inr (Some OfOtherState)"
  note f = DBServer_leader_failure [OF getPrototypeStateLeaderById_no_state [OF a]]
  show "DBServer_insert d logId entries = Inl (no_state_exception logId)" using f by blast
  show "DBServer_get d logId key = Inl (no_state_exception logId)" using f by blast
  show "DBServer_get_keys d logId keys = Inl (no_state_exception logId)" using f by blast
  show "DBServer_getSnapshot d logId waitForIndex = Inl (no_state_exception logId)" using f by blast
  show "DBServer_remove d logId key = Inl (no_state_exception logId)" using f by blast
  show "DBServer_remove_keys d logId keys = Inl (no_state_exception logId)" using f by blast
next
  assume a: "getReplicatedStateById d logId = Inr (Some (OfPrototypeState (ReplicatedState_PrototypeState None)))"
  note f = DBServer_leader_failure [OF getPrototypeStateLeaderById_no_leader [OF a]]
  show "DBServer_insert d logId entries = Inl (no_leader_exception logId)" using f by blast
  show "DBServer_get d logId key = Inl (no_leader_exception logId)" using f by blast
  show "DBServer_get_keys d logId keys = Inl (no_leader_exception logId)" using f by blast
  show "DBServer_getSnapshot d logId waitForIndex = Inl (no_leader_exception logId)" using f by blast
  show "DBServer_remove d logId key = Inl (no_leader_exception logId)" using f by blast
  show "DBServer_remove_keys d logId keys = Inl (no_leader_exception logId)" using f by blast
qed

theorem DBServer_without_leader_fails_internal_witness:
  "getReplicatedStateById example_dbserver (LogId 7) = Inr None
   \<and> DBServer_insert example_dbserver (LogId 7) [(''a'', ''1'')] = Inl (no_state_exception (LogId 7))
   \<and> DBServer_get example_dbserver (LogId 7) ''a'' = Inl (no_state_exception (LogId 7))
   \<and> getReplicatedStateById example_dbserver (LogId 12) = Inr (Some (OfPrototypeState (ReplicatedState_PrototypeState None)))
   \<and> DBServer_getSnapshot example_dbserver (LogId 12) (LogIndex 3) = Inl (no_leader_exception (LogId 12))
   \<and> DBServer_remove_keys example_dbserver (LogId 12) [''a''] = Inl (no_leader_exception (LogId 12))
   \<and> getReplicatedStateById example_dbserver (LogId 13) = Inr (Some OfOtherState)
   \<and> DBServer_get_keys example_dbserver (LogId 13) [''a''] = Inl (no_state_exception (LogId 13))
   \<and> DBServer_remove example_dbserver (LogId 13) ''a'' = Inl (no_state_exception (LogId 13))"
  using
    DBServer_without_leader_fails_internal
      [of example_dbserver "LogId 7" "[(''a'', ''1'')]" "''a''" "[''a'']" "LogIndex 3"]
    DBServer_without_leader_fails_internal
      [of example_dbserver "LogId 12" "[(''a'', ''1'')]" "''a''" "[''a'']" "LogIndex 3"]
    DBServer_without_leader_fails_internal
      [of example_dbserver "LogId 13" "[(''a'', ''1'')]" "''a''" "[''a'']" "LogIndex 3"]
  by (simp add: example_dbserver_def)

text \<open>
  C1 as stated asks for an error that is not the generic internal error. On a node
  without a state for log 7 and with a leaderless state for log 12, \<open>get\<close> throws
  \<open>TRI_ERROR_INTERNAL\<close> in both cases.
\<close>

theorem DBServer_missing_state_is_internal_error:
  "DBServer_get example_dbserver (LogId 7) ''a'' =
     Inl (ArangoException \<lparr>errorNumber = TRI_ERROR_INTERNAL,
            errorMessage = ''Failed to get ProtoypeState with id 7''\<rparr>)
   \<and> DBServer_get example_dbserver (LogId 12) ''a'' =
     Inl (ArangoException \<lparr>errorNumber = TRI_ERROR_INTERNAL,
            errorMessage = ''Failed to get leader of ProtoypeState with id 12''\<rparr>)"
  by (simp add: DBServer_get_def getPrototypeStateLeaderById_def example_dbserver_def
      THROW_ARANGO_EXCEPTION_MESSAGE_def concatT_def logId_string_def digit_char_def to_string.simps)

section \<open>The forwarding variant: lookup and request\<close>

lemma getLogLeader_success:
  "getReplicatedLogLeader c (vocbase_name c) logId = ResultT_success leader \<Longrightarrow>
   getLogLeader c logId = Inr leader"
  by (simp add: getLogLeader_def)

lemma getLogLeader_resigned:
  "getReplicatedLogLeader c (vocbase_name c) logId = ResultT_error r \<Longrightarrow>
   errorNumber r = TRI_ERROR_REPLICATION_REPLICATED_LOG_LEADER_RESIGNED \<Longrightarrow>
   getLogLeader c logId = Inl (ParticipantResignedException r)"
  by (simp add: getLogLeader_def)

lemma getLogLeader_other_error:
  "getReplicatedLogLeader c (vocbase_name c) logId = ResultT_error r \<Longrightarrow>
   errorNumber r \<noteq> TRI_ERROR_REPLICATION_REPLICATED_LOG_LEADER_RESIGNED \<Longrightarrow>
   getLogLeader c logId = Inl (ArangoException r)"
  by (simp add: getLogLeader_def THROW_ARANGO_EXCEPTION_def)

lemma sendRequest_thenValue_throws:
  "getLogLeader c logId = Inl e \<Longrightarrow>
   sendRequest_thenValue c logId v p body opts k = ([AskedLogLeader (vocbase_name c) logId], Inl e)"
  by (simp add: sendRequest_thenValue_def)

lemma sendRequest_thenValue_sends:
  "getLogLeader c logId = Inr leader \<Longrightarrow>
   sendRequest_thenValue c logId v p body \<lparr>database = vocbase_name c, parameters = params\<rparr> k =
     ([AskedLogLeader (vocbase_name c) logId, SentRequest (request_to c leader v p body params)],
      k (pool c (request_to c leader v p body params)))"
  by (simp add: sendRequest_thenValue_def Let_def)

lemma Coordinator_throws:
  assumes "getLogLeader c logId = Inl e"
  shows "Coordinator_insert toJson c logId entries = ([AskedLogLeader (vocbase_name c) logId], Inl e)"
    and "Coordinator_get toJson c logId key = ([AskedLogLeader (vocbase_name c) logId], Inl e)"
    and "Coordinator_get_keys toJson c logId keys = ([AskedLogLeader (vocbase_name c) logId], Inl e)"
    and "Coordinator_getSnapshot toJson c logId waitForIndex = ([AskedLogLeader (vocbase_name c) logId], Inl e)"
    and "Coordinator_remove toJson c logId key = ([AskedLogLeader (vocbase_name c) logId], Inl e)"
    and "Coordinator_remove_keys toJson c logId keys = ([AskedLogLeader (vocbase_name c) logId], Inl e)"
  using assms
  by (simp_all add: Coordinator_insert_def Coordinator_get_def Coordinator_get_keys_def
      Coordinator_getSnapshot_def Coordinator_remove_def Coordinator_remove_keys_def
      sendRequest_thenValue_throws Let_def)

lemma Coordinator_sends:
  assumes "getLogLeader c logId = Inr leader"
  shows "Coordinator_insert toJson c logId entries =
           ([AskedLogLeader (vocbase_name c) logId, SentRequest (insert_request c leader logId entries)],
            logIndexResult toJson (pool c (insert_request c leader logId entries)))"
    and "Coordinator_get toJson c logId key =
           ([AskedLogLeader (vocbase_name c) logId, SentRequest (get_request c leader logId key)],
            get_thenValue toJson (pool c (get_request c leader logId key)))"
    and "Coordinator_get_keys toJson c logId keys =
           ([AskedLogLeader (vocbase_name c) logId, SentRequest (get_keys_request c leader logId keys)],
            map_thenValue toJson (pool c (get_keys_request c leader logId keys)))"
    and "Coordinator_getSnapshot toJson c logId waitForIndex =
           ([AskedLogLeader (vocbase_name c) logId,
             SentRequest (getSnapshot_request c leader logId waitForIndex)],
            snapshot_thenValue toJson (pool c (getSnapshot_request c leader logId waitForIndex)))"
    and "Coordinator_remove toJson c logId key =
           ([AskedLogLeader (vocbase_name c) logId, SentRequest (remove_request c leader logId key)],
            logIndexResult toJson (pool c (remove_request c leader logId key)))"
    and "Coordinator_remove_keys toJson c logId keys =
           ([AskedLogLeader (vocbase_name c) logId,
             SentRequest (remove_keys_request c leader logId keys)],
            logIndexResult toJson (pool c (remove_keys_request c leader logId keys)))"
  using assms
  by (simp_all add: Coordinator_insert_def Coordinator_get_def Coordinator_get_keys_def
      Coordinator_getSnapshot_def Coordinator_remove_def Coordinator_remove_keys_def
      sendRequest_thenValue_sends Let_def entries_body_def keys_body_def)

text \<open>
  C2. If the cluster info answers the lookup of the log leader with the error
  \<open>TRI_ERROR_REPLICATION_REPLICATED_LOG_LEADER_RESIGNED\<close>, each of the six methods
  throws a \<^verbatim>\<open>ParticipantResignedException\<close> with that result, an exception of
  its own type and no \<^verbatim>\<open>basics::Exception\<close>; the cluster info has been asked
  once and no request has been sent.
\<close>

theorem Coordinator_leader_resigned:
  assumes "getReplicatedLogLeader c (vocbase_name c) logId = ResultT_error r"
    and "errorNumber r = TRI_ERROR_REPLICATION_REPLICATED_LOG_LEADER_RESIGNED"
  shows "Coordinator_insert toJson c logId entries =
           ([AskedLogLeader (vocbase_name c) logId], Inl (ParticipantResignedException r))
       \<and> Coordinator_get toJson c logId key =
           ([AskedLogLeader (vocbase_name c) logId], Inl (ParticipantResignedException r))
       \<and> Coordinator_get_keys toJson c logId keys =
           ([AskedLogLeader (vocbase_name c) logId], Inl (ParticipantResignedException r))
       \<and> Coordinator_getSnapshot toJson c logId waitForIndex =
           ([AskedLogLeader (vocbase_name c) logId], Inl (ParticipantResignedException r))
       \<and> Coordinator_remove toJson c logId key =
           ([AskedLogLeader (vocbase_name c) logId], Inl (ParticipantResignedException r))
       \<and> Coordinator_remove_keys toJson c logId keys =
           ([AskedLogLeader (vocbase_name c) logId], Inl (ParticipantResignedException r))"
  using Coordinator_throws [OF getLogLeader_resigned [OF assms]] by simp

theorem Coordinator_leader_resigned_witness:
  "getReplicatedLogLeader (example_coordinator (ResultT_error resigned_result) no_response)
     (vocbase_name (example_coordinator (ResultT_error resigned_result) no_response)) (LogId 12)
     = ResultT_error resigned_result
   \<and> errorNumber resigned_result = TRI_ERROR_REPLICATION_REPLICATED_LOG_LEADER_RESIGNED
   \<and> Coordinator_insert toJson_example (example_coordinator (ResultT_error resigned_result) no_response)
        (LogId 12) [(''a'', ''1'')]
      = ([AskedLogLeader ''_system'' (LogId 12)], Inl (ParticipantResignedException resigned_result))
   \<and> Coordinator_getSnapshot toJson_example (example_coordinator (ResultT_error resigned_result) no_response)
        (LogId 12) (LogIndex 3)
      = ([AskedLogLeader ''_system'' (LogId 12)], Inl (ParticipantResignedException resigned_result))"
  using Coordinator_leader_resigned [of "example_coordinator (ResultT_error resigned_result) no_response"
      "LogId 12" resigned_result toJson_example "[(''a'', ''1'')]" "''a''" "[''a'']" "LogIndex 3"]
  by (simp add: example_coordinator_def resigned_result_def)

text \<open>
  C6. Where the leader of the log is known, each method sends exactly one request, to
  \<open>server:<leader>\<close> and in the database of the vocbase: insert is a POST to
  \<open>_api/prototype-state/<logId>/insert\<close> with an object of the entries; get one is a
  GET to \<open>.../entry/<key>\<close>; get many is a POST to \<open>.../multi-get\<close> with an array of the
  keys; snapshot is a GET to \<open>.../snapshot\<close> with the parameter \<open>waitForIndex\<close>;
  remove one is a DELETE to \<open>.../entry/<key>\<close>; remove many is a DELETE to
  \<open>.../multi-remove\<close> with an array of the keys.
\<close>

theorem Coordinator_requests:
  assumes "getReplicatedLogLeader c (vocbase_name c) logId = ResultT_success leader"
  shows "fst (Coordinator_insert toJson c logId entries) =
           [AskedLogLeader (vocbase_name c) logId,
            SentRequest \<lparr>destination = ''server:'' @ leader, verb = Post,
              path = ''_api/prototype-state/'' @ to_string (unat (id_of logId)) @ ''/insert'',
              payload = Some (VObject (map (\<lambda>(key, val). (key, VString val)) entries)),
              options = \<lparr>database = vocbase_name c, parameters = []\<rparr>\<rparr>]
       \<and> fst (Coordinator_get toJson c logId key) =
           [AskedLogLeader (vocbase_name c) logId,
            SentRequest \<lparr>destination = ''server:'' @ leader, verb = Get,
              path = ''_api/prototype-state/'' @ to_string (unat (id_of logId)) @ ''/entry/'' @ key,
              payload = None,
              options = \<lparr>database = vocbase_name c, parameters = []\<rparr>\<rparr>]
       \<and> fst (Coordinator_get_keys toJson c logId keys) =
           [AskedLogLeader (vocbase_name c) logId,
            SentRequest \<lparr>destination = ''server:'' @ leader, verb = Post,
              path = ''_api/prototype-state/'' @ to_string (unat (id_of logId)) @ ''/multi-get'',
              payload = Some (VArray (map VString keys)),
              options = \<lparr>database = vocbase_name c, parameters = []\<rparr>\<rparr>]
       \<and> fst (Coordinator_getSnapshot toJson c logId waitForIndex) =
           [AskedLogLeader (vocbase_name c) logId,
            SentRequest \<lparr>destination = ''server:'' @ leader, verb = Get,
              path = ''_api/prototype-state/'' @ to_string (unat (id_of logId)) @ ''/snapshot'',
              payload = None,
              options = \<lparr>database = vocbase_name c,
                parameters = [(''waitForIndex'', to_string (unat (value_of waitForIndex)))]\<rparr>\<rparr>]
       \<and> fst (Coordinator_remove toJson c logId key) =
           [AskedLogLeader (vocbase_name c) logId,
            SentRequest \<lparr>destination = ''server:'' @ leader, verb = Delete,
              path = ''_api/prototype-state/'' @ to_string (unat (id_of logId)) @ ''/entry/'' @ key,
              payload = None,
              options = \<lparr>database = vocbase_name c, parameters = []\<rparr>\<rparr>]
       \<and> fst (Coordinator_remove_keys toJson c logId keys) =
           [AskedLogLeader (vocbase_name c) logId,
            SentRequest \<lparr>destination = ''server:'' @ leader, verb = Delete,
              path = ''_api/prototype-state/'' @ to_string (unat (id_of logId)) @ ''/multi-remove'',
              payload = Some (VArray (map VString keys)),
              options = \<lparr>database = vocbase_name c, parameters = []\<rparr>\<rparr>]"
  using Coordinator_sends [OF getLogLeader_success [OF assms]]
  by (simp add: logId_string_def)

theorem Coordinator_requests_witness:
  "getReplicatedLogLeader (example_coordinator (ResultT_success ''PRMR-0001'') no_response)
     (vocbase_name (example_coordinator (ResultT_success ''PRMR-0001'') no_response)) (LogId 12)
     = ResultT_success ''PRMR-0001''
   \<and> fst (Coordinator_insert toJson_example
            (example_coordinator (ResultT_success ''PRMR-0001'') no_response) (LogId 12)
            [(''a'', ''1''), (''b'', ''2'')]) =
       [AskedLogLeader ''_system'' (LogId 12),
        SentRequest \<lparr>destination = ''server:PRMR-0001'', verb = Post,
          path = ''_api/prototype-state/12/insert'',
          payload = Some (VObject [(''a'', VString ''1''), (''b'', VString ''2'')]),
          options = \<lparr>database = ''_system'', parameters = []\<rparr>\<rparr>]
   \<and> fst (Coordinator_getSnapshot toJson_example
            (example_coordinator (ResultT_success ''PRMR-0001'') no_response) (LogId 12)
            (LogIndex 3)) =
       [AskedLogLeader ''_system'' (LogId 12),
        SentRequest \<lparr>destination = ''server:PRMR-0001'', verb = Get,
          path = ''_api/prototype-state/12/snapshot'',
          payload = None,
          options = \<lparr>database = ''_system'', parameters = [(''waitForIndex'', ''3'')]\<rparr>\<rparr>]
   \<and> fst (Coordinator_remove_keys toJson_example
            (example_coordinator (ResultT_success ''PRMR-0001'') no_response) (LogId 12)
            [''a'', ''b'']) =
       [AskedLogLeader ''_system'' (LogId 12),
        SentRequest \<lparr>destination = ''server:PRMR-0001'', verb = Delete,
          path = ''_api/prototype-state/12/multi-remove'',
          payload = Some (VArray [VString ''a'', VString ''b'']),
          options = \<lparr>database = ''_system'', parameters = []\<rparr>\<rparr>]"
  using Coordinator_requests [of "example_coordinator (ResultT_success ''PRMR-0001'') no_response"
      "LogId 12" "''PRMR-0001''" toJson_example "[(''a'', ''1''), (''b'', ''2'')]" "''a''"
      "[''a'', ''b'']" "LogIndex 3"]
  by (simp add: example_coordinator_def to_string.simps digit_char_def)

section \<open>The forwarding variant: failed requests\<close>

lemma logIndexResult_failure:
  "fail resp \<or> \<not> statusIsSuccess (statusCode resp) \<Longrightarrow>
   logIndexResult toJson resp = Inl (ArangoException (combinedResult resp))"
  by (auto simp: logIndexResult_def processLogIndexResponse_def THROW_ARANGO_EXCEPTION_def)

lemma map_thenValue_failure:
  "fail resp \<or> \<not> statusIsSuccess (statusCode resp) \<Longrightarrow>
   map_thenValue toJson resp = Inl (ArangoException (combinedResult resp))"
  by (auto simp: map_thenValue_def THROW_ARANGO_EXCEPTION_def)

lemma snapshot_thenValue_failure:
  "fail resp \<or> \<not> statusIsSuccess (statusCode resp) \<Longrightarrow>
   snapshot_thenValue toJson resp = Inl (ArangoException (combinedResult resp))"
  by (simp add: snapshot_thenValue_def map_thenValue_failure)

lemma get_thenValue_failure:
  "statusCode resp \<noteq> StatusNotFound \<Longrightarrow>
   fail resp \<or> \<not> statusIsSuccess (statusCode resp) \<Longrightarrow>
   get_thenValue toJson resp = Inl (ArangoException (combinedResult resp))"
  by (auto simp: get_thenValue_def THROW_ARANGO_EXCEPTION_def)

text \<open>
  C3. Where the leader of the log is known, each method sends one request and no
  second one; if the response to it has failed or has a status that is no success
  (and, for get one, is not 404), the call throws an exception that carries the
  combined result of this response.
\<close>

theorem Coordinator_remote_failure:
  assumes "getReplicatedLogLeader c (vocbase_name c) logId = ResultT_success leader"
  shows "(\<exists>req. fst (Coordinator_insert toJson c logId entries) =
                  [AskedLogLeader (vocbase_name c) logId, SentRequest req]
           \<and> (fail (pool c req) \<or> \<not> statusIsSuccess (statusCode (pool c req)) \<longrightarrow>
                snd (Coordinator_insert toJson c logId entries) =
                  Inl (ArangoException (combinedResult (pool c req)))))
       \<and> (\<exists>req. fst (Coordinator_get toJson c logId key) =
                  [AskedLogLeader (vocbase_name c) logId, SentRequest req]
           \<and> (statusCode (pool c req) \<noteq> StatusNotFound
                \<and> (fail (pool c req) \<or> \<not> statusIsSuccess (statusCode (pool c req))) \<longrightarrow>
                snd (Coordinator_get toJson c logId key) =
                  Inl (ArangoException (combinedResult (pool c req)))))
       \<and> (\<exists>req. fst (Coordinator_get_keys toJson c logId keys) =
                  [AskedLogLeader (vocbase_name c) logId, SentRequest req]
           \<and> (fail (pool c req) \<or> \<not> statusIsSuccess (statusCode (pool c req)) \<longrightarrow>
                snd (Coordinator_get_keys toJson c logId keys) =
                  Inl (ArangoException (combinedResult (pool c req)))))
       \<and> (\<exists>req. fst (Coordinator_getSnapshot toJson c logId waitForIndex) =
                  [AskedLogLeader (vocbase_name c) logId, SentRequest req]
           \<and> (fail (pool c req) \<or> \<not> statusIsSuccess (statusCode (pool c req)) \<longrightarrow>
                snd (Coordinator_getSnapshot toJson c logId waitForIndex) =
                  Inl (ArangoException (combinedResult (pool c req)))))
       \<and> (\<exists>req. fst (Coordinator_remove toJson c logId key) =
                  [AskedLogLeader (vocbase_name c) logId, SentRequest req]
           \<and> (fail (pool c req) \<or> \<not> statusIsSuccess (statusCode (pool c req)) \<longrightarrow>
                snd (Coordinator_remove toJson c logId key) =
                  Inl (ArangoException (combinedResult (pool c req)))))
       \<and> (\<exists>req. fst (Coordinator_remove_keys toJson c logId keys) =
                  [AskedLogLeader (vocbase_name c) logId, SentRequest req]
           \<and> (fail (pool c req) \<or> \<not> statusIsSuccess (statusCode (pool c req)) \<longrightarrow>
                snd (Coordinator_remove_keys toJson c logId keys) =
                  Inl (ArangoException (combinedResult (pool c req)))))"
proof -
  note s = Coordinator_sends [OF getLogLeader_success [OF assms]]
  show ?thesis
  proof (intro conjI)
    show "\<exists>req. fst (Coordinator_insert toJson c logId entries) =
                  [AskedLogLeader (vocbase_name c) logId, SentRequest req]
           \<and> (fail (pool c req) \<or> \<not> statusIsSuccess (statusCode (pool c req)) \<longrightarrow>
                snd (Coordinator_insert toJson c logId entries) =
                  Inl (ArangoException (combinedResult (pool c req))))"
      by (rule exI [of _ "insert_request c leader logId entries"])
         (simp add: s(1) logIndexResult_failure)
    show "\<exists>req. fst (Coordinator_get toJson c logId key) =
                  [AskedLogLeader (vocbase_name c) logId, SentRequest req]
           \<and> (statusCode (pool c req) \<noteq> StatusNotFound
                \<and> (fail (pool c req) \<or> \<not> statusIsSuccess (statusCode (pool c req))) \<longrightarrow>
                snd (Coordinator_get toJson c logId key) =
                  Inl (ArangoException (combinedResult (pool c req))))"
      by (rule exI [of _ "get_request c leader logId key"])
         (simp add: s(2) get_thenValue_failure)
    show "\<exists>req. fst (Coordinator_get_keys toJson c logId keys) =
                  [AskedLogLeader (vocbase_name c) logId, SentRequest req]
           \<and> (fail (pool c req) \<or> \<not> statusIsSuccess (statusCode (pool c req)) \<longrightarrow>
                snd (Coordinator_get_keys toJson c logId keys) =
                  Inl (ArangoException (combinedResult (pool c req))))"
      by (rule exI [of _ "get_keys_request c leader logId keys"])
         (simp add: s(3) map_thenValue_failure)
    show "\<exists>req. fst (Coordinator_getSnapshot toJson c logId waitForIndex) =
                  [AskedLogLeader (vocbase_name c) logId, SentRequest req]
           \<and> (fail (pool c req) \<or> \<not> statusIsSuccess (statusCode (pool c req)) \<longrightarrow>
                snd (Coordinator_getSnapshot toJson c logId waitForIndex) =
                  Inl (ArangoException (combinedResult (pool c req))))"
      by (rule exI [of _ "getSnapshot_request c leader logId waitForIndex"])
         (simp add: s(4) snapshot_thenValue_failure)
    show "\<exists>req. fst (Coordinator_remove toJson c logId key) =
                  [AskedLogLeader (vocbase_name c) logId, SentRequest req]
           \<and> (fail (pool c req) \<or> \<not> statusIsSuccess (statusCode (pool c req)) \<longrightarrow>
                snd (Coordinator_remove toJson c logId key) =
                  Inl (ArangoException (combinedResult (pool c req))))"
      by (rule exI [of _ "remove_request c leader logId key"])
         (simp add: s(5) logIndexResult_failure)
    show "\<exists>req. fst (Coordinator_remove_keys toJson c logId keys) =
                  [AskedLogLeader (vocbase_name c) logId, SentRequest req]
           \<and> (fail (pool c req) \<or> \<not> statusIsSuccess (statusCode (pool c req)) \<longrightarrow>
                snd (Coordinator_remove_keys toJson c logId keys) =
                  Inl (ArangoException (combinedResult (pool c req))))"
      by (rule exI [of _ "remove_keys_request c leader logId keys"])
         (simp add: s(6) logIndexResult_failure)
  qed
qed

theorem Coordinator_remote_failure_witness:
  "getReplicatedLogLeader (example_coordinator (ResultT_success ''PRMR-0001'') no_response)
     (vocbase_name (example_coordinator (ResultT_success ''PRMR-0001'') no_response)) (LogId 12)
     = ResultT_success ''PRMR-0001''
   \<and> fail no_response \<and> statusCode no_response \<noteq> StatusNotFound
   \<and> snd (Coordinator_insert toJson_example
            (example_coordinator (ResultT_success ''PRMR-0001'') no_response) (LogId 12)
            [(''a'', ''1'')]) = Inl (ArangoException (combinedResult no_response))
   \<and> snd (Coordinator_get toJson_example
            (example_coordinator (ResultT_success ''PRMR-0001'') no_response) (LogId 12)
            ''a'') = Inl (ArangoException (combinedResult no_response))
   \<and> snd (Coordinator_get_keys toJson_example
            (example_coordinator (ResultT_success ''PRMR-0001'') no_response) (LogId 12)
            [''a'']) = Inl (ArangoException (combinedResult no_response))"
  using Coordinator_remote_failure [of "example_coordinator (ResultT_success ''PRMR-0001'') no_response"
      "LogId 12" "''PRMR-0001''" toJson_example "[(''a'', ''1'')]" "''a''" "[''a'']" "LogIndex 3"]
  by (auto simp: example_coordinator_def no_response_def StatusNotFound_def)

section \<open>The forwarding variant: responses of the wrong shape\<close>

lemma envelope_result_Some:
  "(envelope_result body = Some es) =
   (\<exists>kvs. body = VObject kvs \<and> map_of kvs ''result'' = Some (VObject es))"
  by (auto simp: envelope_result_def split: vpack.splits option.splits)

lemma processLogIndexResponse_malformed:
  assumes "\<not> fail resp" and "statusIsSuccess (statusCode resp)"
    and "\<forall>es. envelope_result (slice resp) = Some es \<longrightarrow> length es \<noteq> 1"
  shows "processLogIndexResponse toJson resp =
     Inl (if isObject (slice resp)
          then malformed_exception ''expected result containing index in leader response: ''
                 (toJson (slice resp))
          else VPackException InvalidValueType)"
proof (cases "slice resp")
  case (VObject kvs)
  show ?thesis
  proof (cases "map_of kvs ''result''")
    case None
    with VObject assms(1,2) show ?thesis
      by (simp add: processLogIndexResponse_def THROW_ARANGO_EXCEPTION_MESSAGE_def concatT_def)
  next
    case (Some result)
    with VObject assms(3) have "\<forall>es. result = VObject es \<longrightarrow> length es \<noteq> 1"
      by (simp add: envelope_result_Some)
    then have "(isObject result \<and> slice_length result = Inr 1) = False"
      by (cases result) auto
    with VObject Some assms(1,2) show ?thesis
      by (auto simp: processLogIndexResponse_def THROW_ARANGO_EXCEPTION_MESSAGE_def concatT_def)
  qed
qed (use assms(1,2) in \<open>simp_all add: processLogIndexResponse_def\<close>)

lemma logIndexResult_malformed:
  assumes "\<not> fail resp" and "statusIsSuccess (statusCode resp)"
    and "\<forall>es. envelope_result (slice resp) = Some es \<longrightarrow> length es \<noteq> 1"
  shows "logIndexResult toJson resp =
     Inl (if isObject (slice resp)
          then malformed_exception ''expected result containing index in leader response: ''
                 (toJson (slice resp))
          else VPackException InvalidValueType)"
  unfolding logIndexResult_def processLogIndexResponse_malformed [OF assms] by simp

lemma get_thenValue_malformed:
  assumes "\<not> fail resp" and "statusIsSuccess (statusCode resp)"
    and "\<forall>es. envelope_result (slice resp) = Some es \<longrightarrow> length es \<noteq> 1"
  shows "get_thenValue toJson resp =
     Inl (if isObject (slice resp)
          then malformed_exception
                 ''expected result containing key-value pair in leader response: ''
                 (toJson (slice resp))
          else VPackException InvalidValueType)"
proof -
  from assms(2) have nf: "statusCode resp \<noteq> StatusNotFound"
    by (auto simp: statusIsSuccess_def StatusNotFound_def)
  show ?thesis
  proof (cases "slice resp")
    case (VObject kvs)
    show ?thesis
    proof (cases "map_of kvs ''result''")
      case None
      with VObject assms(1,2) nf show ?thesis
        by (simp add: get_thenValue_def THROW_ARANGO_EXCEPTION_MESSAGE_def concatT_def)
    next
      case (Some result)
      with VObject assms(3) have "\<forall>es. result = VObject es \<longrightarrow> length es \<noteq> 1"
        by (simp add: envelope_result_Some)
      then have "(isObject result \<and> slice_length result = Inr 1) = False"
        by (cases result) auto
      with VObject Some assms(1,2) nf show ?thesis
        by (auto simp: get_thenValue_def THROW_ARANGO_EXCEPTION_MESSAGE_def concatT_def)
    qed
  qed (use assms(1,2) nf in \<open>simp_all add: get_thenValue_def\<close>)
qed

lemma map_thenValue_malformed:
  assumes "\<not> fail resp" and "statusIsSuccess (statusCode resp)"
    and "envelope_result (slice resp) = None"
  shows "map_thenValue toJson resp =
     Inl (if isObject (slice resp)
          then malformed_exception ''expected result containing map in leader response: ''
                 (toJson (slice resp))
          else VPackException InvalidValueType)"
proof (cases "slice resp")
  case (VObject kvs)
  show ?thesis
  proof (cases "map_of kvs ''result''")
    case None
    with VObject assms(1,2) show ?thesis
      by (simp add: map_thenValue_def THROW_ARANGO_EXCEPTION_MESSAGE_def concatT_def)
  next
    case (Some result)
    with VObject assms(3) have "\<forall>es. result \<noteq> VObject es"
      by (auto simp: envelope_result_def)
    with VObject Some assms(1,2) show ?thesis
      by (cases result)
        (simp_all add: map_thenValue_def THROW_ARANGO_EXCEPTION_MESSAGE_def concatT_def)
  qed
qed (use assms(1,2) in \<open>simp_all add: map_thenValue_def\<close>)

lemma snapshot_thenValue_malformed:
  assumes "\<not> fail resp" and "statusIsSuccess (statusCode resp)"
    and "envelope_result (slice resp) = None"
  shows "snapshot_thenValue toJson resp =
     Inl (if isObject (slice resp)
          then malformed_exception ''expected result containing map in leader response: ''
                 (toJson (slice resp))
          else VPackException InvalidValueType)"
  unfolding snapshot_thenValue_def map_thenValue_malformed [OF assms] by simp

text \<open>
  C4. On a response with a success status whose body has no \<open>result\<close> attribute
  holding an object (for get one, insert and remove: an object of exactly one entry),
  the call returns no value: it throws the exception with the code
  \<open>TRI_ERROR_INTERNAL\<close> and the message \<open>expected result containing ...\<close> followed by
  the body, or, where the body is no object, the type error of the lookup.
\<close>

theorem Coordinator_malformed_response:
  assumes "getReplicatedLogLeader c (vocbase_name c) logId = ResultT_success leader"
  shows "(\<exists>req. fst (Coordinator_insert toJson c logId entries) =
                  [AskedLogLeader (vocbase_name c) logId, SentRequest req]
           \<and> (\<not> fail (pool c req) \<and> statusIsSuccess (statusCode (pool c req))
                \<and> (\<forall>es. envelope_result (slice (pool c req)) = Some es \<longrightarrow> length es \<noteq> 1) \<longrightarrow>
                snd (Coordinator_insert toJson c logId entries) =
                  Inl (malformed_failure toJson
                         ''expected result containing index in leader response: ''
                         (slice (pool c req)))))
       \<and> (\<exists>req. fst (Coordinator_get toJson c logId key) =
                  [AskedLogLeader (vocbase_name c) logId, SentRequest req]
           \<and> (\<not> fail (pool c req) \<and> statusIsSuccess (statusCode (pool c req))
                \<and> (\<forall>es. envelope_result (slice (pool c req)) = Some es \<longrightarrow> length es \<noteq> 1) \<longrightarrow>
                snd (Coordinator_get toJson c logId key) =
                  Inl (malformed_failure toJson
                         ''expected result containing key-value pair in leader response: ''
                         (slice (pool c req)))))
       \<and> (\<exists>req. fst (Coordinator_get_keys toJson c logId keys) =
                  [AskedLogLeader (vocbase_name c) logId, SentRequest req]
           \<and> (\<not> fail (pool c req) \<and> statusIsSuccess (statusCode (pool c req))
                \<and> envelope_result (slice (pool c req)) = None \<longrightarrow>
                snd (Coordinator_get_keys toJson c logId keys) =
                  Inl (malformed_failure toJson
                         ''expected result containing map in leader response: ''
                         (slice (pool c req)))))
       \<and> (\<exists>req. fst (Coordinator_getSnapshot toJson c logId waitForIndex) =
                  [AskedLogLeader (vocbase_name c) logId, SentRequest req]
           \<and> (\<not> fail (pool c req) \<and> statusIsSuccess (statusCode (pool c req))
                \<and> envelope_result (slice (pool c req)) = None \<longrightarrow>
                snd (Coordinator_getSnapshot toJson c logId waitForIndex) =
                  Inl (malformed_failure toJson
                         ''expected result containing map in leader response: ''
                         (slice (pool c req)))))
       \<and> (\<exists>req. fst (Coordinator_remove toJson c logId key) =
                  [AskedLogLeader (vocbase_name c) logId, SentRequest req]
           \<and> (\<not> fail (pool c req) \<and> statusIsSuccess (statusCode (pool c req))
                \<and> (\<forall>es. envelope_result (slice (pool c req)) = Some es \<longrightarrow> length es \<noteq> 1) \<longrightarrow>
                snd (Coordinator_remove toJson c logId key) =
                  Inl (malformed_failure toJson
                         ''expected result containing index in leader response: ''
                         (slice (pool c req)))))
       \<and> (\<exists>req. fst (Coordinator_remove_keys toJson c logId keys) =
                  [AskedLogLeader (vocbase_name c) logId, SentRequest req]
           \<and> (\<not> fail (pool c req) \<and> statusIsSuccess (statusCode (pool c req))
                \<and> (\<forall>es. envelope_result (slice (pool c req)) = Some es \<longrightarrow> length es \<noteq> 1) \<longrightarrow>
                snd (Coordinator_remove_keys toJson c logId keys) =
                  Inl (malformed_failure toJson
                         ''expected result containing index in leader response: ''
                         (slice (pool c req)))))"
proof -
  note s = Coordinator_sends [OF getLogLeader_success [OF assms]]
  show ?thesis
  proof (intro conjI)
    show "\<exists>req. fst (Coordinator_insert toJson c logId entries) =
                  [AskedLogLeader (vocbase_name c) logId, SentRequest req]
           \<and> (\<not> fail (pool c req) \<and> statusIsSuccess (statusCode (pool c req))
                \<and> (\<forall>es. envelope_result (slice (pool c req)) = Some es \<longrightarrow> length es \<noteq> 1) \<longrightarrow>
                snd (Coordinator_insert toJson c logId entries) =
                  Inl (malformed_failure toJson
                         ''expected result containing index in leader response: ''
                         (slice (pool c req))))"
      by (rule exI [of _ "insert_request c leader logId entries"])
         (simp add: s(1) logIndexResult_malformed del: append.simps)
    show "\<exists>req. fst (Coordinator_get toJson c logId key) =
                  [AskedLogLeader (vocbase_name c) logId, SentRequest req]
           \<and> (\<not> fail (pool c req) \<and> statusIsSuccess (statusCode (pool c req))
                \<and> (\<forall>es. envelope_result (slice (pool c req)) = Some es \<longrightarrow> length es \<noteq> 1) \<longrightarrow>
                snd (Coordinator_get toJson c logId key) =
                  Inl (malformed_failure toJson
                         ''expected result containing key-value pair in leader response: ''
                         (slice (pool c req))))"
      by (rule exI [of _ "get_request c leader logId key"])
         (simp add: s(2) get_thenValue_malformed del: append.simps)
    show "\<exists>req. fst (Coordinator_get_keys toJson c logId keys) =
                  [AskedLogLeader (vocbase_name c) logId, SentRequest req]
           \<and> (\<not> fail (pool c req) \<and> statusIsSuccess (statusCode (pool c req))
                \<and> envelope_result (slice (pool c req)) = None \<longrightarrow>
                snd (Coordinator_get_keys toJson c logId keys) =
                  Inl (malformed_failure toJson
                         ''expected result containing map in leader response: ''
                         (slice (pool c req))))"
      by (rule exI [of _ "get_keys_request c leader logId keys"])
         (simp add: s(3) map_thenValue_malformed del: append.simps)
    show "\<exists>req. fst (Coordinator_getSnapshot toJson c logId waitForIndex) =
                  [AskedLogLeader (vocbase_name c) logId, SentRequest req]
           \<and> (\<not> fail (pool c req) \<and> statusIsSuccess (statusCode (pool c req))
                \<and> envelope_result (slice (pool c req)) = None \<longrightarrow>
                snd (Coordinator_getSnapshot toJson c logId waitForIndex) =
                  Inl (malformed_failure toJson
                         ''expected result containing map in leader response: ''
                         (slice (pool c req))))"
      by (rule exI [of _ "getSnapshot_request c leader logId waitForIndex"])
         (simp add: s(4) snapshot_thenValue_malformed del: append.simps)
    show "\<exists>req. fst (Coordinator_remove toJson c logId key) =
                  [AskedLogLeader (vocbase_name c) logId, SentRequest req]
           \<and> (\<not> fail (pool c req) \<and> statusIsSuccess (statusCode (pool c req))
                \<and> (\<forall>es. envelope_result (slice (pool c req)) = Some es \<longrightarrow> length es \<noteq> 1) \<longrightarrow>
                snd (Coordinator_remove toJson c logId key) =
                  Inl (malformed_failure toJson
                         ''expected result containing index in leader response: ''
                         (slice (pool c req))))"
      by (rule exI [of _ "remove_request c leader logId key"])
         (simp add: s(5) logIndexResult_malformed del: append.simps)
    show "\<exists>req. fst (Coordinator_remove_keys toJson c logId keys) =
                  [AskedLogLeader (vocbase_name c) logId, SentRequest req]
           \<and> (\<not> fail (pool c req) \<and> statusIsSuccess (statusCode (pool c req))
                \<and> (\<forall>es. envelope_result (slice (pool c req)) = Some es \<longrightarrow> length es \<noteq> 1) \<longrightarrow>
                snd (Coordinator_remove_keys toJson c logId keys) =
                  Inl (malformed_failure toJson
                         ''expected result containing index in leader response: ''
                         (slice (pool c req))))"
      by (rule exI [of _ "remove_keys_request c leader logId keys"])
         (simp add: s(6) logIndexResult_malformed del: append.simps)
  qed
qed

theorem Coordinator_malformed_response_witness:
  "getReplicatedLogLeader
     (example_coordinator (ResultT_success ''PRMR-0001'') (success_response (VArray [])))
     (vocbase_name (example_coordinator (ResultT_success ''PRMR-0001'') (success_response (VArray []))))
     (LogId 12) = ResultT_success ''PRMR-0001''
   \<and> \<not> fail (success_response (VArray []))
   \<and> statusIsSuccess (statusCode (success_response (VArray [])))
   \<and> envelope_result (slice (success_response (VArray []))) = None
   \<and> snd (Coordinator_remove toJson_example
            (example_coordinator (ResultT_success ''PRMR-0001'') (success_response (VArray [])))
            (LogId 12) ''a'') =
       Inl (malformed_exception ''expected result containing index in leader response: ''
              (toJson_example (slice (success_response (VArray [])))))
   \<and> snd (Coordinator_get_keys toJson_example
            (example_coordinator (ResultT_success ''PRMR-0001'') (success_response (VArray [])))
            (LogId 12) [''a'']) =
       Inl (malformed_exception ''expected result containing map in leader response: ''
              (toJson_example (slice (success_response (VArray [])))))"
  using Coordinator_malformed_response
      [of "example_coordinator (ResultT_success ''PRMR-0001'') (success_response (VArray []))"
      "LogId 12" "''PRMR-0001''" toJson_example "[(''a'', ''1'')]" "''a''" "[''a'']" "LogIndex 3"]
  by (auto simp: example_coordinator_def success_response_def statusIsSuccess_def
      envelope_result_def)

section \<open>The forwarding variant: get one\<close>

lemma get_thenValue_None:
  "(get_thenValue toJson resp = Inr None) = (statusCode resp = StatusNotFound)"
  by (auto simp: get_thenValue_def THROW_ARANGO_EXCEPTION_def THROW_ARANGO_EXCEPTION_MESSAGE_def
      split: sum.splits if_splits)

lemma get_thenValue_single_entry:
  assumes "\<not> fail resp" and "statusIsSuccess (statusCode resp)"
    and "slice resp = VObject kvs" and "map_of kvs ''result'' = Some (VObject [(k, v)])"
  shows "get_thenValue toJson resp =
           (case copyString v of Inl e \<Rightarrow> Inl e | Inr s \<Rightarrow> Inr (Some s))"
proof -
  from assms(2) have nf: "statusCode resp \<noteq> StatusNotFound"
    by (auto simp: statusIsSuccess_def StatusNotFound_def)
  with assms show ?thesis
    by (simp add: get_thenValue_def)
qed

text \<open>
  C5. Get one through the forwarding variant returns \<open>None\<close> exactly when the
  status of the response is 404, so that a missing key is a value and no error; on a
  success status with the body \<open>{result: {key: value}}\<close> it returns \<open>Some value\<close>.
\<close>

theorem Coordinator_get_not_found_is_None:
  assumes "getReplicatedLogLeader c (vocbase_name c) logId = ResultT_success leader"
  shows "\<exists>req. fst (Coordinator_get toJson c logId key) =
                  [AskedLogLeader (vocbase_name c) logId, SentRequest req]
           \<and> ((snd (Coordinator_get toJson c logId key) = Inr None) =
                (statusCode (pool c req) = StatusNotFound))
           \<and> (\<forall>kvs v. \<not> fail (pool c req) \<and> statusIsSuccess (statusCode (pool c req))
                \<and> slice (pool c req) = VObject kvs
                \<and> map_of kvs ''result'' = Some (VObject [(key, VString v)]) \<longrightarrow>
                snd (Coordinator_get toJson c logId key) = Inr (Some v))"
  by (rule exI [of _ "get_request c leader logId key"])
     (simp add: Coordinator_sends(2) [OF getLogLeader_success [OF assms]]
       get_thenValue_None get_thenValue_single_entry)

theorem Coordinator_get_not_found_is_None_witness:
  "getReplicatedLogLeader (example_coordinator (ResultT_success ''PRMR-0001'') not_found_response)
     (vocbase_name (example_coordinator (ResultT_success ''PRMR-0001'') not_found_response))
     (LogId 12) = ResultT_success ''PRMR-0001''
   \<and> statusCode not_found_response = StatusNotFound
   \<and> snd (Coordinator_get toJson_example
            (example_coordinator (ResultT_success ''PRMR-0001'') not_found_response)
            (LogId 12) ''a'') = Inr None
   \<and> \<not> fail (success_response (VObject [(''a'', VString ''1'')]))
   \<and> statusIsSuccess (statusCode (success_response (VObject [(''a'', VString ''1'')])))
   \<and> snd (Coordinator_get toJson_example
            (example_coordinator (ResultT_success ''PRMR-0001'')
               (success_response (VObject [(''a'', VString ''1'')])))
            (LogId 12) ''a'') = Inr (Some ''1'')"
  using Coordinator_get_not_found_is_None
      [of "example_coordinator (ResultT_success ''PRMR-0001'') not_found_response"
        "LogId 12" "''PRMR-0001''" toJson_example "''a''"]
    Coordinator_get_not_found_is_None
      [of "example_coordinator (ResultT_success ''PRMR-0001'')
             (success_response (VObject [(''a'', VString ''1'')]))"
        "LogId 12" "''PRMR-0001''" toJson_example "''a''"]
  by (auto simp: example_coordinator_def success_response_def not_found_response_def
      statusIsSuccess_def StatusNotFound_def)

text \<open>
  C10. On a success status and a \<open>result\<close> object of exactly one entry, get one
  returns the value of this entry as \<^verbatim>\<open>copyString\<close> reads it, a string value \<open>v\<close>
  as \<open>Some v\<close>, whatever the key of the entry is; a \<open>result\<close> object with no entry or
  with more than one is refused with the exception for a malformed response.
\<close>

theorem Coordinator_get_takes_first_value:
  assumes "getReplicatedLogLeader c (vocbase_name c) logId = ResultT_success leader"
  shows "\<exists>req. fst (Coordinator_get toJson c logId key) =
                  [AskedLogLeader (vocbase_name c) logId, SentRequest req]
           \<and> (\<forall>kvs k v. \<not> fail (pool c req) \<and> statusIsSuccess (statusCode (pool c req))
                \<and> slice (pool c req) = VObject kvs
                \<and> map_of kvs ''result'' = Some (VObject [(k, v)]) \<longrightarrow>
                snd (Coordinator_get toJson c logId key) =
                  (case copyString v of Inl e \<Rightarrow> Inl e | Inr s \<Rightarrow> Inr (Some s)))
           \<and> (\<forall>kvs es. \<not> fail (pool c req) \<and> statusIsSuccess (statusCode (pool c req))
                \<and> slice (pool c req) = VObject kvs
                \<and> map_of kvs ''result'' = Some (VObject es) \<and> length es \<noteq> 1 \<longrightarrow>
                snd (Coordinator_get toJson c logId key) =
                  Inl (malformed_exception
                         ''expected result containing key-value pair in leader response: ''
                         (toJson (slice (pool c req)))))"
proof (rule exI [of _ "get_request c leader logId key"], intro conjI allI impI)
  let ?resp = "pool c (get_request c leader logId key)"
  note s = Coordinator_sends(2) [OF getLogLeader_success [OF assms]]
  show "fst (Coordinator_get toJson c logId key) =
          [AskedLogLeader (vocbase_name c) logId, SentRequest (get_request c leader logId key)]"
    by (simp add: s)
  show "snd (Coordinator_get toJson c logId key) =
          (case copyString v of Inl e \<Rightarrow> Inl e | Inr s \<Rightarrow> Inr (Some s))"
    if "\<not> fail ?resp \<and> statusIsSuccess (statusCode ?resp) \<and> slice ?resp = VObject kvs
        \<and> map_of kvs ''result'' = Some (VObject [(k, v)])" for kvs k v
    using that by (simp add: s get_thenValue_single_entry)
  show "snd (Coordinator_get toJson c logId key) =
          Inl (malformed_exception
                 ''expected result containing key-value pair in leader response: ''
                 (toJson (slice ?resp)))"
    if h: "\<not> fail ?resp \<and> statusIsSuccess (statusCode ?resp) \<and> slice ?resp = VObject kvs
        \<and> map_of kvs ''result'' = Some (VObject es) \<and> length es \<noteq> 1" for kvs es
  proof -
    from h have "\<forall>es'. envelope_result (slice ?resp) = Some es' \<longrightarrow> length es' \<noteq> 1"
      by (auto simp: envelope_result_Some)
    with h have "get_thenValue toJson ?resp =
        Inl (malformed_failure toJson
               ''expected result containing key-value pair in leader response: '' (slice ?resp))"
      by (intro get_thenValue_malformed) simp_all
    with h show ?thesis by (simp add: s del: append.simps)
  qed
qed

theorem Coordinator_get_takes_first_value_witness:
  "getReplicatedLogLeader
     (example_coordinator (ResultT_success ''PRMR-0001'')
        (success_response (VObject [(''b'', VString ''2'')])))
     (vocbase_name (example_coordinator (ResultT_success ''PRMR-0001'')
        (success_response (VObject [(''b'', VString ''2'')]))))
     (LogId 12) = ResultT_success ''PRMR-0001''
   \<and> \<not> fail (success_response (VObject [(''b'', VString ''2'')]))
   \<and> statusIsSuccess (statusCode (success_response (VObject [(''b'', VString ''2'')])))
   \<and> snd (Coordinator_get toJson_example
            (example_coordinator (ResultT_success ''PRMR-0001'')
               (success_response (VObject [(''b'', VString ''2'')])))
            (LogId 12) ''a'') = Inr (Some ''2'')
   \<and> snd (Coordinator_get toJson_example
            (example_coordinator (ResultT_success ''PRMR-0001'')
               (success_response (VObject [(''a'', VString ''1''), (''b'', VString ''2'')])))
            (LogId 12) ''a'') =
       Inl (malformed_exception
              ''expected result containing key-value pair in leader response: ''
              (toJson_example
                 (slice (success_response (VObject [(''a'', VString ''1''), (''b'', VString ''2'')])))))
   \<and> snd (Coordinator_get toJson_example
            (example_coordinator (ResultT_success ''PRMR-0001'') (success_response (VObject [])))
            (LogId 12) ''a'') =
       Inl (malformed_exception
              ''expected result containing key-value pair in leader response: ''
              (toJson_example (slice (success_response (VObject [])))))"
  using Coordinator_get_takes_first_value
      [of "example_coordinator (ResultT_success ''PRMR-0001'')
             (success_response (VObject [(''b'', VString ''2'')]))"
        "LogId 12" "''PRMR-0001''" toJson_example "''a''"]
    Coordinator_get_takes_first_value
      [of "example_coordinator (ResultT_success ''PRMR-0001'')
             (success_response (VObject [(''a'', VString ''1''), (''b'', VString ''2'')]))"
        "LogId 12" "''PRMR-0001''" toJson_example "''a''"]
    Coordinator_get_takes_first_value
      [of "example_coordinator (ResultT_success ''PRMR-0001'') (success_response (VObject []))"
        "LogId 12" "''PRMR-0001''" toJson_example "''a''"]
  by (auto simp: example_coordinator_def success_response_def statusIsSuccess_def)

section \<open>The two variants compared\<close>

lemma map_of_emplace: "map_of (emplace m k v) = map_of (m @ [(k, v)])"
  by (auto simp: emplace_def fun_eq_iff map_add_def split: option.splits)

lemma collect_map_strings:
  "\<exists>m'. collect_map (map (\<lambda>(key, val). (key, VString val)) m) acc = Inr m'
        \<and> map_of m' = map_of (acc @ m)"
proof (induction m arbitrary: acc)
  case Nil
  then show ?case by simp
next
  case (Cons kv m)
  obtain k v where kv: "kv = (k, v)" by (cases kv)
  from Cons [of "emplace acc k v"] obtain m' where
    m': "collect_map (map (\<lambda>(key, val). (key, VString val)) m) (emplace acc k v) = Inr m'"
      "map_of m' = map_of (emplace acc k v @ m)" by blast
  have "map_of (emplace acc k v @ m) = map_of (acc @ (k, v) # m)"
    by (simp add: map_of_emplace fun_eq_iff map_add_def split: option.splits)
  with m' kv show ?case by simp
qed

lemma processLogIndexResponse_index:
  assumes "\<not> fail resp" and "statusIsSuccess (statusCode resp)"
    and "envelope_result (slice resp) = Some [(''index'', VInt (uint w))]"
  shows "processLogIndexResponse toJson resp = Inr (LogIndex w)"
proof -
  from assms(3) obtain kvs where
    "slice resp = VObject kvs" "map_of kvs ''result'' = Some (VObject [(''index'', VInt (uint w))])"
    by (auto simp: envelope_result_Some)
  moreover have "uint w < 2 ^ 64" using uint_bounded [of w] by simp
  ultimately show ?thesis using assms(1,2)
    by (simp add: processLogIndexResponse_def)
qed

lemma logIndexResult_envelope:
  assumes "index_envelope resp (outcome_of_ResultT error_of x)"
    and "\<forall>r. error_of (ArangoException r) = r"
  shows "outcome_of_ResultT error_of (logIndexResult toJson resp) = outcome_of_ResultT error_of x"
proof (cases "outcome_of_ResultT error_of x")
  case (Value i)
  with assms(1) have "processLogIndexResponse toJson resp = Inr i"
    using processLogIndexResponse_index [of resp "value_of i" toJson]
    by (simp add: index_envelope_def)
  with Value show ?thesis by (simp add: logIndexResult_def outcome_of_ResultT_def)
next
  case (Failure r)
  with assms(1) have "logIndexResult toJson resp = Inl (ArangoException r)"
    using logIndexResult_failure [of resp toJson] by (simp add: index_envelope_def)
  with Failure assms(2) show ?thesis by (simp add: outcome_of_ResultT_def)
qed

lemma map_thenValue_envelope:
  assumes "map_envelope resp (outcome_of error_of x)"
    and "\<forall>r. error_of (ArangoException r) = r"
  shows "map_outcome map_of (outcome_of error_of (map_thenValue toJson resp)) =
         map_outcome map_of (outcome_of error_of x)"
proof (cases "outcome_of error_of x")
  case (Value m)
  with assms(1) have ok: "\<not> fail resp" "statusIsSuccess (statusCode resp)"
    and env: "envelope_result (slice resp) = Some (map (\<lambda>(key, val). (key, VString val)) m)"
    by (simp_all add: map_envelope_def)
  from env obtain kvs where
    kvs: "slice resp = VObject kvs"
      "map_of kvs ''result'' = Some (VObject (map (\<lambda>(key, val). (key, VString val)) m))"
    by (auto simp: envelope_result_Some)
  from collect_map_strings [of m "[]"] obtain m' where
    "collect_map (map (\<lambda>(key, val). (key, VString val)) m) [] = Inr m'" "map_of m' = map_of m"
    by auto
  with ok kvs have "map_thenValue toJson resp = Inr m'"
    by (simp add: map_thenValue_def)
  with Value \<open>map_of m' = map_of m\<close> show ?thesis by (simp add: outcome_of_def)
next
  case (Failure r)
  with assms(1) have "map_thenValue toJson resp = Inl (ArangoException r)"
    using map_thenValue_failure [of resp toJson] by (simp add: map_envelope_def)
  with Failure assms(2) show ?thesis by (simp add: outcome_of_def)
qed

lemma outcome_of_ResultT_success:
  "outcome_of_ResultT error_of (case x of Inl e \<Rightarrow> Inl e | Inr m \<Rightarrow> Inr (ResultT_success m)) =
   outcome_of error_of x"
  by (simp add: outcome_of_ResultT_def outcome_of_def split: sum.splits)

lemma snapshot_thenValue_envelope:
  assumes "map_envelope resp (outcome_of_ResultT error_of x)"
    and "\<forall>r. error_of (ArangoException r) = r"
  shows "map_outcome map_of (outcome_of_ResultT error_of (snapshot_thenValue toJson resp)) =
         map_outcome map_of (outcome_of_ResultT error_of x)"
proof -
  obtain y :: "exception + unordered_map" where
    y: "outcome_of error_of y = outcome_of_ResultT error_of x"
  proof (cases "outcome_of_ResultT error_of x")
    case (Value m)
    then have "outcome_of error_of (Inr m :: exception + unordered_map) = outcome_of_ResultT error_of x"
      by (simp add: outcome_of_def)
    then show ?thesis by (rule that)
  next
    case (Failure r)
    with assms(2) have "outcome_of error_of (Inl (ArangoException r) :: exception + unordered_map)
        = outcome_of_ResultT error_of x"
      by (simp add: outcome_of_def)
    then show ?thesis by (rule that)
  qed
  with assms(1) have "map_envelope resp (outcome_of error_of y)" by simp
  from map_thenValue_envelope [OF this assms(2), of toJson] y show ?thesis
    by (simp add: snapshot_thenValue_def outcome_of_ResultT_success)
qed

lemma get_thenValue_envelope:
  assumes "entry_envelope key resp (outcome_of error_of x)"
    and "\<forall>r. error_of (ArangoException r) = r"
    and "\<forall>r. outcome_of error_of x = Failure r \<longrightarrow> statusCode resp \<noteq> StatusNotFound"
  shows "outcome_of error_of (get_thenValue toJson resp) = outcome_of error_of x"
proof (cases "outcome_of error_of x")
  case (Value ov)
  show ?thesis
  proof (cases ov)
    case None
    with Value assms(1) have "get_thenValue toJson resp = Inr None"
      by (simp add: entry_envelope_def get_thenValue_None)
    with Value None show ?thesis by (simp add: outcome_of_def)
  next
    case (Some v)
    with Value assms(1) have ok: "\<not> fail resp" "statusIsSuccess (statusCode resp)"
      and env: "envelope_result (slice resp) = Some [(key, VString v)]"
      by (simp_all add: entry_envelope_def)
    from env obtain kvs where
      "slice resp = VObject kvs" "map_of kvs ''result'' = Some (VObject [(key, VString v)])"
      by (auto simp: envelope_result_Some)
    with ok have "get_thenValue toJson resp = Inr (Some v)"
      by (simp add: get_thenValue_single_entry)
    with Value Some show ?thesis by (simp add: outcome_of_def)
  qed
next
  case (Failure r)
  with assms(1,3) have "get_thenValue toJson resp = Inl (ArangoException r)"
    using get_thenValue_failure [of resp toJson] by (simp add: entry_envelope_def)
  with Failure assms(2) show ?thesis by (simp add: outcome_of_def)
qed

text \<open>
  C7, as amended. Let the leader of the log be known, and let the response to the
  request of a method be the envelope of what the co-located variant does for the same
  arguments. Then the forwarding variant has the same outcome as the co-located one:
  the same value (maps compared by their content), or a failure with the same
  \<^verbatim>\<open>Result\<close>, which the forwarding variant always throws. For get one this holds
  provided that a failure is not reported with the status 404.
\<close>

theorem Coordinator_matches_DBServer:
  assumes "getReplicatedLogLeader c (vocbase_name c) logId = ResultT_success leader"
    and "\<forall>r. error_of (ArangoException r) = r"
  shows "(index_envelope (pool c (insert_request c leader logId entries))
            (outcome_of_ResultT error_of (DBServer_insert d logId entries)) \<longrightarrow>
          outcome_of_ResultT error_of (snd (Coordinator_insert toJson c logId entries)) =
          outcome_of_ResultT error_of (DBServer_insert d logId entries))
       \<and> (entry_envelope key (pool c (get_request c leader logId key))
            (outcome_of error_of (DBServer_get d logId key))
          \<and> (\<forall>r. outcome_of error_of (DBServer_get d logId key) = Failure r \<longrightarrow>
                statusCode (pool c (get_request c leader logId key)) \<noteq> StatusNotFound) \<longrightarrow>
          outcome_of error_of (snd (Coordinator_get toJson c logId key)) =
          outcome_of error_of (DBServer_get d logId key))
       \<and> (map_envelope (pool c (get_keys_request c leader logId keys))
            (outcome_of error_of (DBServer_get_keys d logId keys)) \<longrightarrow>
          map_outcome map_of (outcome_of error_of (snd (Coordinator_get_keys toJson c logId keys))) =
          map_outcome map_of (outcome_of error_of (DBServer_get_keys d logId keys)))
       \<and> (map_envelope (pool c (getSnapshot_request c leader logId waitForIndex))
            (outcome_of_ResultT error_of (DBServer_getSnapshot d logId waitForIndex)) \<longrightarrow>
          map_outcome map_of
            (outcome_of_ResultT error_of (snd (Coordinator_getSnapshot toJson c logId waitForIndex))) =
          map_outcome map_of (outcome_of_ResultT error_of (DBServer_getSnapshot d logId waitForIndex)))
       \<and> (index_envelope (pool c (remove_request c leader logId key))
            (outcome_of_ResultT error_of (DBServer_remove d logId key)) \<longrightarrow>
          outcome_of_ResultT error_of (snd (Coordinator_remove toJson c logId key)) =
          outcome_of_ResultT error_of (DBServer_remove d logId key))
       \<and> (index_envelope (pool c (remove_keys_request c leader logId keys))
            (outcome_of_ResultT error_of (DBServer_remove_keys d logId keys)) \<longrightarrow>
          outcome_of_ResultT error_of (snd (Coordinator_remove_keys toJson c logId keys)) =
          outcome_of_ResultT error_of (DBServer_remove_keys d logId keys))"
proof -
  note s = Coordinator_sends [OF getLogLeader_success [OF assms(1)]]
  show ?thesis
  proof (intro conjI impI)
    assume "index_envelope (pool c (insert_request c leader logId entries))
      (outcome_of_ResultT error_of (DBServer_insert d logId entries))"
    from logIndexResult_envelope [OF this assms(2)]
    show "outcome_of_ResultT error_of (snd (Coordinator_insert toJson c logId entries)) =
          outcome_of_ResultT error_of (DBServer_insert d logId entries)"
      by (simp add: s(1))
  next
    assume "entry_envelope key (pool c (get_request c leader logId key))
            (outcome_of error_of (DBServer_get d logId key))
          \<and> (\<forall>r. outcome_of error_of (DBServer_get d logId key) = Failure r \<longrightarrow>
                statusCode (pool c (get_request c leader logId key)) \<noteq> StatusNotFound)"
    then have "outcome_of error_of (get_thenValue toJson (pool c (get_request c leader logId key))) =
        outcome_of error_of (DBServer_get d logId key)"
      using assms(2) by (intro get_thenValue_envelope) blast+
    then show "outcome_of error_of (snd (Coordinator_get toJson c logId key)) =
          outcome_of error_of (DBServer_get d logId key)"
      by (simp add: s(2))
  next
    assume "map_envelope (pool c (get_keys_request c leader logId keys))
            (outcome_of error_of (DBServer_get_keys d logId keys))"
    from map_thenValue_envelope [OF this assms(2)]
    show "map_outcome map_of (outcome_of error_of (snd (Coordinator_get_keys toJson c logId keys))) =
          map_outcome map_of (outcome_of error_of (DBServer_get_keys d logId keys))"
      by (simp add: s(3))
  next
    assume "map_envelope (pool c (getSnapshot_request c leader logId waitForIndex))
            (outcome_of_ResultT error_of (DBServer_getSnapshot d logId waitForIndex))"
    from snapshot_thenValue_envelope [OF this assms(2)]
    show "map_outcome map_of
            (outcome_of_ResultT error_of (snd (Coordinator_getSnapshot toJson c logId waitForIndex))) =
          map_outcome map_of (outcome_of_ResultT error_of (DBServer_getSnapshot d logId waitForIndex))"
      by (simp add: s(4))
  next
    assume "index_envelope (pool c (remove_request c leader logId key))
            (outcome_of_ResultT error_of (DBServer_remove d logId key))"
    from logIndexResult_envelope [OF this assms(2)]
    show "outcome_of_ResultT error_of (snd (Coordinator_remove toJson c logId key)) =
          outcome_of_ResultT error_of (DBServer_remove d logId key)"
      by (simp add: s(5))
  next
    assume "index_envelope (pool c (remove_keys_request c leader logId keys))
            (outcome_of_ResultT error_of (DBServer_remove_keys d logId keys))"
    from logIndexResult_envelope [OF this assms(2)]
    show "outcome_of_ResultT error_of (snd (Coordinator_remove_keys toJson c logId keys)) =
          outcome_of_ResultT error_of (DBServer_remove_keys d logId keys)"
      by (simp add: s(6))
  qed
qed

theorem Coordinator_matches_DBServer_witness:
  "index_envelope (success_response (VObject [(''index'', VInt 5)]))
     (outcome_of_ResultT carried_result (DBServer_insert leading_dbserver (LogId 12) [(''a'', ''1'')]))
   \<and> outcome_of_ResultT carried_result
        (snd (Coordinator_insert toJson_example
           (example_coordinator (ResultT_success ''PRMR-0001'')
              (success_response (VObject [(''index'', VInt 5)])))
           (LogId 12) [(''a'', ''1'')]))
      = outcome_of_ResultT carried_result (DBServer_insert leading_dbserver (LogId 12) [(''a'', ''1'')])
   \<and> entry_envelope ''a'' (success_response (VObject [(''a'', VString ''1'')]))
        (outcome_of carried_result (DBServer_get leading_dbserver (LogId 12) ''a''))
   \<and> outcome_of carried_result
        (snd (Coordinator_get toJson_example
           (example_coordinator (ResultT_success ''PRMR-0001'')
              (success_response (VObject [(''a'', VString ''1'')])))
           (LogId 12) ''a''))
      = outcome_of carried_result (DBServer_get leading_dbserver (LogId 12) ''a'')
   \<and> entry_envelope ''z'' not_found_response
        (outcome_of carried_result (DBServer_get leading_dbserver (LogId 12) ''z''))
   \<and> outcome_of carried_result
        (snd (Coordinator_get toJson_example
           (example_coordinator (ResultT_success ''PRMR-0001'') not_found_response)
           (LogId 12) ''z''))
      = outcome_of carried_result (DBServer_get leading_dbserver (LogId 12) ''z'')
   \<and> map_envelope (success_response (VObject [(''a'', VString ''1'')]))
        (outcome_of carried_result (DBServer_get_keys leading_dbserver (LogId 12) [''a'', ''z'']))
   \<and> map_outcome map_of (outcome_of carried_result
        (snd (Coordinator_get_keys toJson_example
           (example_coordinator (ResultT_success ''PRMR-0001'')
              (success_response (VObject [(''a'', VString ''1'')])))
           (LogId 12) [''a'', ''z''])))
      = map_outcome map_of
          (outcome_of carried_result (DBServer_get_keys leading_dbserver (LogId 12) [''a'', ''z'']))
   \<and> map_envelope (success_response (VObject [(''a'', VString ''1''), (''b'', VString ''2'')]))
        (outcome_of_ResultT carried_result
           (DBServer_getSnapshot leading_dbserver (LogId 12) (LogIndex 3)))
   \<and> map_outcome map_of (outcome_of_ResultT carried_result
        (snd (Coordinator_getSnapshot toJson_example
           (example_coordinator (ResultT_success ''PRMR-0001'')
              (success_response (VObject [(''a'', VString ''1''), (''b'', VString ''2'')])))
           (LogId 12) (LogIndex 3))))
      = map_outcome map_of (outcome_of_ResultT carried_result
           (DBServer_getSnapshot leading_dbserver (LogId 12) (LogIndex 3)))
   \<and> index_envelope (success_response (VObject [(''index'', VInt 6)]))
        (outcome_of_ResultT carried_result (DBServer_remove leading_dbserver (LogId 12) ''a''))
   \<and> outcome_of_ResultT carried_result
        (snd (Coordinator_remove toJson_example
           (example_coordinator (ResultT_success ''PRMR-0001'')
              (success_response (VObject [(''index'', VInt 6)])))
           (LogId 12) ''a''))
      = outcome_of_ResultT carried_result (DBServer_remove leading_dbserver (LogId 12) ''a'')
   \<and> index_envelope (error_response 503 resigned_result)
        (outcome_of_ResultT carried_result (DBServer_remove_keys leading_dbserver (LogId 12) [''a'']))
   \<and> outcome_of_ResultT carried_result
        (snd (Coordinator_remove_keys toJson_example
           (example_coordinator (ResultT_success ''PRMR-0001'') (error_response 503 resigned_result))
           (LogId 12) [''a'']))
      = outcome_of_ResultT carried_result
          (DBServer_remove_keys leading_dbserver (LogId 12) [''a''])"
proof -
  have leader: "getReplicatedLogLeader (example_coordinator (ResultT_success ''PRMR-0001'') resp)
      (vocbase_name (example_coordinator (ResultT_success ''PRMR-0001'') resp)) (LogId 12)
      = ResultT_success ''PRMR-0001''" for resp
    by (simp add: example_coordinator_def)
  have carried: "\<forall>r. carried_result (ArangoException r) = r" by simp
  have pool: "pool (example_coordinator (ResultT_success ''PRMR-0001'') resp) req = resp" for resp req
    by (simp add: example_coordinator_def)
  have on_leader: "getPrototypeStateLeaderById leading_dbserver (LogId 12) = Inr example_leader"
    by (simp add: getPrototypeStateLeaderById_def leading_dbserver_def)
  have e1: "index_envelope (success_response (VObject [(''index'', VInt 5)]))
     (outcome_of_ResultT carried_result (DBServer_insert leading_dbserver (LogId 12) [(''a'', ''1'')]))"
    by (simp add: index_envelope_def success_response_def statusIsSuccess_def envelope_result_def
        outcome_of_ResultT_def DBServer_insert_def on_leader example_leader_def)
  have e2: "entry_envelope ''a'' (success_response (VObject [(''a'', VString ''1'')]))
        (outcome_of carried_result (DBServer_get leading_dbserver (LogId 12) ''a''))"
    by (simp add: entry_envelope_def success_response_def statusIsSuccess_def envelope_result_def
        outcome_of_def DBServer_get_def on_leader example_leader_def)
  have e3: "entry_envelope ''z'' not_found_response
        (outcome_of carried_result (DBServer_get leading_dbserver (LogId 12) ''z''))"
    by (simp add: entry_envelope_def not_found_response_def StatusNotFound_def
        outcome_of_def DBServer_get_def on_leader example_leader_def)
  have e4: "map_envelope (success_response (VObject [(''a'', VString ''1'')]))
        (outcome_of carried_result (DBServer_get_keys leading_dbserver (LogId 12) [''a'', ''z'']))"
    by (simp add: map_envelope_def success_response_def statusIsSuccess_def envelope_result_def
        outcome_of_def DBServer_get_keys_def on_leader example_leader_def)
  have e5: "map_envelope (success_response (VObject [(''a'', VString ''1''), (''b'', VString ''2'')]))
        (outcome_of_ResultT carried_result
           (DBServer_getSnapshot leading_dbserver (LogId 12) (LogIndex 3)))"
    by (simp add: map_envelope_def success_response_def statusIsSuccess_def envelope_result_def
        outcome_of_ResultT_def DBServer_getSnapshot_def on_leader example_leader_def)
  have e6: "index_envelope (success_response (VObject [(''index'', VInt 6)]))
        (outcome_of_ResultT carried_result (DBServer_remove leading_dbserver (LogId 12) ''a''))"
    by (simp add: index_envelope_def success_response_def statusIsSuccess_def envelope_result_def
        outcome_of_ResultT_def DBServer_remove_def on_leader example_leader_def)
  have e7: "index_envelope (error_response 503 resigned_result)
        (outcome_of_ResultT carried_result (DBServer_remove_keys leading_dbserver (LogId 12) [''a'']))"
    by (simp add: index_envelope_def error_response_def statusIsSuccess_def
        outcome_of_ResultT_def DBServer_remove_keys_def on_leader example_leader_def)
  have nf: "\<forall>r. outcome_of carried_result (DBServer_get leading_dbserver (LogId 12) key) \<noteq> Failure r"
    for key
    by (simp add: outcome_of_def DBServer_get_def on_leader example_leader_def)
  note t = Coordinator_matches_DBServer [OF leader carried, where d = leading_dbserver
      and toJson = toJson_example, unfolded pool]
  have c1: "outcome_of_ResultT carried_result
        (snd (Coordinator_insert toJson_example
           (example_coordinator (ResultT_success ''PRMR-0001'')
              (success_response (VObject [(''index'', VInt 5)])))
           (LogId 12) [(''a'', ''1'')]))
      = outcome_of_ResultT carried_result (DBServer_insert leading_dbserver (LogId 12) [(''a'', ''1'')])"
    using e1 t [where resp1 = "success_response (VObject [(''index'', VInt 5)])"
        and entries = "[(''a'', ''1'')]" and key = "''a''" and keys = "[''a'']"
        and waitForIndex = "LogIndex 3"]
    by blast
  have c2: "outcome_of carried_result
        (snd (Coordinator_get toJson_example
           (example_coordinator (ResultT_success ''PRMR-0001'')
              (success_response (VObject [(''a'', VString ''1'')])))
           (LogId 12) ''a''))
      = outcome_of carried_result (DBServer_get leading_dbserver (LogId 12) ''a'')"
    using e2 nf [of "''a''"] t [where resp1 = "success_response (VObject [(''a'', VString ''1'')])"
        and entries = "[(''a'', ''1'')]" and key = "''a''" and keys = "[''a'']"
        and waitForIndex = "LogIndex 3"]
    by blast
  have c3: "outcome_of carried_result
        (snd (Coordinator_get toJson_example
           (example_coordinator (ResultT_success ''PRMR-0001'') not_found_response)
           (LogId 12) ''z''))
      = outcome_of carried_result (DBServer_get leading_dbserver (LogId 12) ''z'')"
    using e3 nf [of "''z''"] t [where resp1 = not_found_response
        and entries = "[(''a'', ''1'')]" and key = "''z''" and keys = "[''a'']"
        and waitForIndex = "LogIndex 3"]
    by blast
  have c4: "map_outcome map_of (outcome_of carried_result
        (snd (Coordinator_get_keys toJson_example
           (example_coordinator (ResultT_success ''PRMR-0001'')
              (success_response (VObject [(''a'', VString ''1'')])))
           (LogId 12) [''a'', ''z''])))
      = map_outcome map_of
          (outcome_of carried_result (DBServer_get_keys leading_dbserver (LogId 12) [''a'', ''z'']))"
    using e4 t [where resp1 = "success_response (VObject [(''a'', VString ''1'')])"
        and entries = "[(''a'', ''1'')]" and key = "''a''" and keys = "[''a'', ''z'']"
        and waitForIndex = "LogIndex 3"]
    by blast
  have c5: "map_outcome map_of (outcome_of_ResultT carried_result
        (snd (Coordinator_getSnapshot toJson_example
           (example_coordinator (ResultT_success ''PRMR-0001'')
              (success_response (VObject [(''a'', VString ''1''), (''b'', VString ''2'')])))
           (LogId 12) (LogIndex 3))))
      = map_outcome map_of (outcome_of_ResultT carried_result
           (DBServer_getSnapshot leading_dbserver (LogId 12) (LogIndex 3)))"
    using e5 t [where resp1 = "success_response (VObject [(''a'', VString ''1''), (''b'', VString ''2'')])"
        and entries = "[(''a'', ''1'')]" and key = "''a''" and keys = "[''a'']"
        and waitForIndex = "LogIndex 3"]
    by blast
  have c6: "outcome_of_ResultT carried_result
        (snd (Coordinator_remove toJson_example
           (example_coordinator (ResultT_success ''PRMR-0001'')
              (success_response (VObject [(''index'', VInt 6)])))
           (LogId 12) ''a''))
      = outcome_of_ResultT carried_result (DBServer_remove leading_dbserver (LogId 12) ''a'')"
    using e6 t [where resp1 = "success_response (VObject [(''index'', VInt 6)])"
        and entries = "[(''a'', ''1'')]" and key = "''a''" and keys = "[''a'']"
        and waitForIndex = "LogIndex 3"]
    by blast
  have c7: "outcome_of_ResultT carried_result
        (snd (Coordinator_remove_keys toJson_example
           (example_coordinator (ResultT_success ''PRMR-0001'') (error_response 503 resigned_result))
           (LogId 12) [''a'']))
      = outcome_of_ResultT carried_result
          (DBServer_remove_keys leading_dbserver (LogId 12) [''a''])"
    using e7 t [where resp1 = "error_response 503 resigned_result"
        and entries = "[(''a'', ''1'')]" and key = "''a''" and keys = "[''a'']"
        and waitForIndex = "LogIndex 3"]
    by blast
  from e1 e2 e3 e4 e5 e6 e7 c1 c2 c3 c4 c5 c6 c7 show ?thesis by blast
qed

text \<open>
  C7 as stated has no such proviso. When the co-located variant fails and the endpoint
  reports the failure with the status 404, get one through the forwarding variant
  returns \<open>None\<close>, the answer for an absent key.
\<close>

theorem Coordinator_get_hides_not_found_failure:
  "entry_envelope ''a'' (error_response 404 state_not_found_result)
     (outcome_of carried_result (DBServer_get dbserver_lookup_throws (LogId 7) ''a''))
   \<and> outcome_of carried_result (DBServer_get dbserver_lookup_throws (LogId 7) ''a'')
       = Failure state_not_found_result
   \<and> outcome_of carried_result
       (snd (Coordinator_get toJson_example
          (example_coordinator (ResultT_success ''PRMR-0001'')
             (error_response 404 state_not_found_result))
          (LogId 7) ''a''))
       = Value None
   \<and> outcome_of carried_result
       (snd (Coordinator_get toJson_example
          (example_coordinator (ResultT_success ''PRMR-0001'')
             (error_response 404 state_not_found_result))
          (LogId 7) ''a''))
       \<noteq> outcome_of carried_result (DBServer_get dbserver_lookup_throws (LogId 7) ''a'')"
  by (simp add: entry_envelope_def outcome_of_def DBServer_get_def getPrototypeStateLeaderById_def
      dbserver_lookup_throws_def error_response_def statusIsSuccess_def
      Coordinator_get_def sendRequest_thenValue_def getLogLeader_def example_coordinator_def
      get_thenValue_def StatusNotFound_def Let_def)

section \<open>Unknown attributes in \<^verbatim>\<open>applyFields\<close>\<close>

lemma find_name_None: "(find_name names k = None) = (k \<notin> set names)"
  by (induction names) auto

lemma collect_slices_unexpected:
  "\<not> ignoreUnknownFields opts \<Longrightarrow>
   find (\<lambda>kv. fst kv \<notin> set names) kvs = Some (k, v) \<Longrightarrow>
   collect_slices opts names kvs slices = Inl (unexpected_attribute k)"
proof (induction kvs arbitrary: slices)
  case Nil
  then show ?case by simp
next
  case (Cons kv kvs)
  obtain k' v' where kv: "kv = (k', v')" by (cases kv)
  show ?case
  proof (cases "k' \<in> set names")
    case True
    then obtain i where "find_name names k' = Some i"
      using find_name_None [of names k'] by auto
    with True Cons kv show ?thesis by simp
  next
    case False
    then have "find_name names k' = None" by (simp add: find_name_None)
    with False Cons.prems kv show ?thesis by simp
  qed
qed

lemma collect_slices_skips:
  "ignoreUnknownFields opts \<Longrightarrow> k \<notin> set names \<Longrightarrow>
   collect_slices opts names (filter (\<lambda>kv. fst kv \<noteq> k) kvs) slices =
   collect_slices opts names kvs slices"
proof (induction kvs arbitrary: slices)
  case Nil
  then show ?case by simp
next
  case (Cons kv kvs)
  obtain k' v' where kv: "kv = (k', v')" by (cases kv)
  show ?case
  proof (cases "k' = k")
    case True
    with Cons.prems have "find_name names k' = None" by (simp add: find_name_None)
    with True Cons kv show ?thesis by simp
  next
    case False
    with Cons kv show ?thesis by (simp split: option.splits)
  qed
qed

text \<open>
  C8. If the object has an attribute that no field declares: with
  \<open>ignoreUnknownFields\<close> false, \<open>applyFields\<close> returns the error that names such an
  attribute, the first one in the order of iteration, and loads no field; with
  \<open>ignoreUnknownFields\<close> true, the outcome is the one for the object without this
  attribute.
\<close>

theorem applyFields_unknown_attribute:
  "(\<not> ignoreUnknownFields opts \<and> (k, v) \<in> set kvs \<and> k \<notin> set (map fieldName args) \<longrightarrow>
      (\<exists>k' v'. find (\<lambda>kv. fst kv \<notin> set (map fieldName args)) kvs = Some (k', v')
         \<and> applyFields opts (VObject kvs) args = Inr (unexpected_attribute k', args)))
   \<and> (\<not> ignoreUnknownFields opts \<and>
      find (\<lambda>kv. fst kv \<notin> set (map fieldName args)) kvs = Some (k, v) \<longrightarrow>
      applyFields opts (VObject kvs) args = Inr (unexpected_attribute k, args))
   \<and> (ignoreUnknownFields opts \<and> k \<notin> set (map fieldName args) \<longrightarrow>
      applyFields opts (VObject kvs) args =
      applyFields opts (VObject (filter (\<lambda>kv. fst kv \<noteq> k) kvs)) args)"
proof (intro conjI impI)
  assume a: "\<not> ignoreUnknownFields opts \<and> (k, v) \<in> set kvs \<and> k \<notin> set (map fieldName args)"
  then have "find (\<lambda>kv. fst kv \<notin> set (map fieldName args)) kvs \<noteq> None"
    by (auto simp: find_None_iff)
  then obtain k' v' where
    f: "find (\<lambda>kv. fst kv \<notin> set (map fieldName args)) kvs = Some (k', v')"
    by (cases "find (\<lambda>kv. fst kv \<notin> set (map fieldName args)) kvs") auto
  with a have "applyFields opts (VObject kvs) args = Inr (unexpected_attribute k', args)"
    by (simp add: applyFields_def collect_slices_unexpected del: append.simps set_map)
  with f show "\<exists>k' v'. find (\<lambda>kv. fst kv \<notin> set (map fieldName args)) kvs = Some (k', v')
         \<and> applyFields opts (VObject kvs) args = Inr (unexpected_attribute k', args)"
    by blast
next
  assume "\<not> ignoreUnknownFields opts \<and>
      find (\<lambda>kv. fst kv \<notin> set (map fieldName args)) kvs = Some (k, v)"
  then show "applyFields opts (VObject kvs) args = Inr (unexpected_attribute k, args)"
    by (simp add: applyFields_def collect_slices_unexpected del: append.simps set_map)
next
  assume "ignoreUnknownFields opts \<and> k \<notin> set (map fieldName args)"
  then show "applyFields opts (VObject kvs) args =
      applyFields opts (VObject (filter (\<lambda>kv. fst kv \<noteq> k) kvs)) args"
    by (simp add: applyFields_def collect_slices_skips del: set_map)
qed

theorem applyFields_unknown_attribute_witness:
  "\<not> ignoreUnknownFields strict_options
   \<and> (''extra'', VInt 1) \<in> set [(''name'', VString ''x''), (''extra'', VInt 1), (''age'', VInt 3)]
   \<and> find (\<lambda>kv. fst kv \<notin> set (map fieldName [example_field ''name'', example_field ''age'']))
       [(''name'', VString ''x''), (''extra'', VInt 1), (''age'', VInt 3)] = Some (''extra'', VInt 1)
   \<and> applyFields strict_options
       (VObject [(''name'', VString ''x''), (''extra'', VInt 1), (''age'', VInt 3)])
       [example_field ''name'', example_field ''age'']
     = Inr (unexpected_attribute ''extra'',
            [example_field ''name'', example_field ''age''])
   \<and> ignoreUnknownFields lenient_options
   \<and> ''extra'' \<notin> set (map fieldName [example_field ''name'', example_field ''age''])
   \<and> applyFields lenient_options
       (VObject [(''name'', VString ''x''), (''extra'', VInt 1), (''age'', VInt 3)])
       [example_field ''name'', example_field ''age'']
     = applyFields lenient_options
       (VObject [(''name'', VString ''x''), (''age'', VInt 3)])
       [example_field ''name'', example_field ''age'']
   \<and> applyFields lenient_options
       (VObject [(''name'', VString ''x''), (''extra'', VInt 1), (''age'', VInt 3)])
       [example_field ''name'', example_field ''age'']
     = Inr (Success, [(example_field ''name'')\<lparr>fieldValue := VString ''x''\<rparr>,
                      (example_field ''age'')\<lparr>fieldValue := VInt 3\<rparr>])"
  using
    applyFields_unknown_attribute
      [where opts = strict_options and args = "[example_field ''name'', example_field ''age'']"
        and kvs = "[(''name'', VString ''x''), (''extra'', VInt 1), (''age'', VInt 3)]"
        and k = "''extra''" and v = "VInt 1"]
    applyFields_unknown_attribute
      [where opts = lenient_options and args = "[example_field ''name'', example_field ''age'']"
        and kvs = "[(''name'', VString ''x''), (''extra'', VInt 1), (''age'', VInt 3)]"
        and k = "''extra''" and v = "VInt 1"]
  by (simp add: strict_options_def lenient_options_def example_field_def applyFields_def
      parseField_def)

section \<open>Properties of \<^verbatim>\<open>createInstance\<close>\<close>

text \<open>
  C9. \<open>createInstance\<close> returns the forwarding variant exactly for the role
  coordinator and the co-located variant exactly for the role dbserver. For every
  other role it throws an exception with the code \<open>TRI_ERROR_NOT_IMPLEMENTED\<close>, so
  that an instance exists exactly for these two roles.
\<close>

theorem createInstance_by_role:
  "(createInstance role vocbase = Inr (PrototypeStateMethodsCoordinator vocbase)) = (role = ROLE_COORDINATOR)
   \<and> (createInstance role vocbase = Inr (PrototypeStateMethodsDBServer vocbase)) = (role = ROLE_DBSERVER)
   \<and> (role \<noteq> ROLE_COORDINATOR \<and> role \<noteq> ROLE_DBSERVER \<longrightarrow>
        createInstance role vocbase =
          Inl (ArangoException \<lparr>errorNumber = TRI_ERROR_NOT_IMPLEMENTED,
                 errorMessage = ''api only on available coordinators or dbservers''\<rparr>))
   \<and> ((\<exists>m. createInstance role vocbase = Inr m) = (role = ROLE_COORDINATOR \<or> role = ROLE_DBSERVER))"
  by (cases role) (simp_all add: THROW_ARANGO_EXCEPTION_MESSAGE_def)

theorem createInstance_by_role_witness:
  "ROLE_AGENT \<noteq> ROLE_COORDINATOR \<and> ROLE_AGENT \<noteq> ROLE_DBSERVER
   \<and> createInstance ROLE_AGENT ''_system'' =
         Inl (ArangoException \<lparr>errorNumber = TRI_ERROR_NOT_IMPLEMENTED,
                errorMessage = ''api only on available coordinators or dbservers''\<rparr>)
   \<and> \<not> (\<exists>m. createInstance ROLE_AGENT ''_system'' = Inr m)"
  using createInstance_by_role [of ROLE_AGENT "''_system''"] by simp

end
